theory Spec2Isabelle
  imports Main "HOL-Library.Sublist"
begin

section \<open>The target registry\<close>

text \<open>
  \<^verbatim>\<open>cmd/build/main.go\<close> holds two snapshots of the same command. The registry
  \<^verbatim>\<open>allTargets\<close>, \<^verbatim>\<open>parseTargets\<close>, \<^verbatim>\<open>cmdPackage\<close> and
  \<^verbatim>\<open>generateCGOConfigs\<close> are the same text in both; \<^verbatim>\<open>buildTarget\<close> differs,
  \<^verbatim>\<open>downloadFile\<close> exists in the first snapshot only and \<^verbatim>\<open>runGetClang\<close> in the
  second only.

  Go strings are byte sequences, and so is \<^typ>\<open>string\<close>.
\<close>

record Target =
  OS :: string
  CPU :: string
  GOOS :: string
  ARCH :: string

definition allTargets :: "Target list" where
  "allTargets =
    [\<lparr>OS = ''linux'', CPU = ''x64'', GOOS = ''linux'', ARCH = ''amd64''\<rparr>,
     \<lparr>OS = ''linux'', CPU = ''arm64'', GOOS = ''linux'', ARCH = ''arm64''\<rparr>,
     \<lparr>OS = ''mac'', CPU = ''x64'', GOOS = ''darwin'', ARCH = ''amd64''\<rparr>,
     \<lparr>OS = ''mac'', CPU = ''arm64'', GOOS = ''darwin'', ARCH = ''arm64''\<rparr>,
     \<lparr>OS = ''win'', CPU = ''x64'', GOOS = ''windows'', ARCH = ''amd64''\<rparr>,
     \<lparr>OS = ''win'', CPU = ''arm64'', GOOS = ''windows'', ARCH = ''arm64''\<rparr>,
     \<lparr>OS = ''ios'', CPU = ''arm64'', GOOS = ''ios'', ARCH = ''arm64''\<rparr>,
     \<lparr>OS = ''android'', CPU = ''arm64'', GOOS = ''android'', ARCH = ''arm64''\<rparr>,
     \<lparr>OS = ''android'', CPU = ''x64'', GOOS = ''android'', ARCH = ''amd64''\<rparr>,
     \<lparr>OS = ''android'', CPU = ''arm'', GOOS = ''android'', ARCH = ''arm''\<rparr>,
     \<lparr>OS = ''android'', CPU = ''x86'', GOOS = ''android'', ARCH = ''386''\<rparr>]"

section \<open>The string functions of the Go library that the command calls\<close>

text \<open>
  \<^verbatim>\<open>strings.Split(s, sep)\<close> for a separator of one byte, which is how the command
  calls it (\<^verbatim>\<open>","\<close> and \<^verbatim>\<open>"/"\<close>): the pieces of \<open>s\<close> between the separators, so
  one piece more than there are separators, and \<^verbatim>\<open>[""]\<close> for the empty string.
\<close>

fun Split :: "string \<Rightarrow> char \<Rightarrow> string list" where
  "Split [] sep = [[]]"
| "Split (c # cs) sep =
     (if c = sep then [] # Split cs sep
      else (case Split cs sep of
              [] \<Rightarrow> [[c]]
            | p # ps \<Rightarrow> (c # p) # ps))"

text \<open>\<^verbatim>\<open>strings.Join(elems, sep)\<close>.\<close>

fun Join :: "string list \<Rightarrow> string \<Rightarrow> string" where
  "Join [] sep = []"
| "Join [x] sep = x"
| "Join (x # y # ys) sep = x @ sep @ Join (y # ys) sep"

text \<open>
  \<^verbatim>\<open>strings.TrimSpace\<close> removes the white space of Unicode from both ends of a string. It
  decodes UTF-8 from the left while the code point is white space
  (\<^verbatim>\<open>unicode.IsSpace\<close>), then from the right in the same way. A code point is decoded
  at a position exactly when its encoding stands there (an ill-formed byte decodes to
  U+FFFD, which is no white space), so trimming removes the encodings below, first
  as prefixes and then as suffixes. The code points are U+0009 to U+000D, U+0020,
  U+0085, U+00A0, U+1680, U+2000 to U+200A, U+2028, U+2029, U+202F, U+205F and U+3000.
\<close>

definition spaceEncodings :: "string list" where
  "spaceEncodings =
    [[CHR 0x09], [CHR 0x0A], [CHR 0x0B], [CHR 0x0C], [CHR 0x0D], [CHR 0x20],
     [CHR 0xC2, CHR 0x85], [CHR 0xC2, CHR 0xA0],
     [CHR 0xE1, CHR 0x9A, CHR 0x80],
     [CHR 0xE2, CHR 0x80, CHR 0x80], [CHR 0xE2, CHR 0x80, CHR 0x81],
     [CHR 0xE2, CHR 0x80, CHR 0x82], [CHR 0xE2, CHR 0x80, CHR 0x83],
     [CHR 0xE2, CHR 0x80, CHR 0x84], [CHR 0xE2, CHR 0x80, CHR 0x85],
     [CHR 0xE2, CHR 0x80, CHR 0x86], [CHR 0xE2, CHR 0x80, CHR 0x87],
     [CHR 0xE2, CHR 0x80, CHR 0x88], [CHR 0xE2, CHR 0x80, CHR 0x89],
     [CHR 0xE2, CHR 0x80, CHR 0x8A],
     [CHR 0xE2, CHR 0x80, CHR 0xA8], [CHR 0xE2, CHR 0x80, CHR 0xA9],
     [CHR 0xE2, CHR 0x80, CHR 0xAF],
     [CHR 0xE2, CHR 0x81, CHR 0x9F],
     [CHR 0xE3, CHR 0x80, CHR 0x80]]"

function stripPrefixes :: "string list \<Rightarrow> string \<Rightarrow> string" where
  "stripPrefixes ps s =
     (case List.find (\<lambda>p. p \<noteq> [] \<and> take (length p) s = p) ps of
        None \<Rightarrow> s
      | Some p \<Rightarrow> stripPrefixes ps (drop (length p) s))"
  by pat_completeness auto
termination
proof (relation "measure (\<lambda>(ps, s). length s)")
  show "wf (measure (\<lambda>(ps, s). length s))"
    by simp
next
  fix ps :: "string list" and s p :: string
  assume "List.find (\<lambda>p. p \<noteq> [] \<and> take (length p) s = p) ps = Some p"
  then have "p \<noteq> []" and "take (length p) s = p"
    by (auto simp: find_Some_iff)
  then have "s \<noteq> []"
    by auto
  with \<open>p \<noteq> []\<close> show "((ps, drop (length p) s), (ps, s)) \<in> measure (\<lambda>(ps, s). length s)"
    by simp
qed

declare stripPrefixes.simps [simp del]

definition TrimLeft :: "string \<Rightarrow> string" where
  "TrimLeft s = stripPrefixes spaceEncodings s"

definition TrimRight :: "string \<Rightarrow> string" where
  "TrimRight s = rev (stripPrefixes (map rev spaceEncodings) (rev s))"

definition TrimSpace :: "string \<Rightarrow> string" where
  "TrimSpace s = TrimRight (TrimLeft s)"

text \<open>A string between double quotes, as \<^verbatim>\<open>"%s"\<close> inside a Go format string prints it.\<close>

definition quoted :: "string \<Rightarrow> string" where
  "quoted s = CHR 0x22 # s @ [CHR 0x22]"

text \<open>The verb \<^verbatim>\<open>%d\<close> on a length: the decimal digits.\<close>

definition digit :: "nat \<Rightarrow> char" where
  "digit d = ''0123456789'' ! d"

fun itoa :: "nat \<Rightarrow> string" where
  "itoa n = (if n < 10 then [digit n] else itoa (n div 10) @ [digit (n mod 10)])"

declare itoa.simps [simp del]

text \<open>
  \<^verbatim>\<open>filepath.Join\<close> puts the separator between its arguments and cleans the result.
  The roots are clean absolute paths (the init function takes them from
  \<^verbatim>\<open>os.Getwd\<close> and \<^verbatim>\<open>filepath.Dir\<close>) and the other arguments are clean relative
  paths, so joining is all that happens. \<^verbatim>\<open>filepath.Dir\<close> drops the last element.
\<close>

definition pathJoin :: "string list \<Rightarrow> string" where
  "pathJoin elems = Join elems ''/''"

definition pathDir :: "string \<Rightarrow> string" where
  "pathDir p = rev (tl (dropWhile (\<lambda>c. c \<noteq> CHR ''/'') (rev p)))"

text \<open>The init function: \<^verbatim>\<open>naiveRoot\<close> and \<^verbatim>\<open>srcRoot\<close> below the project root.\<close>

definition naiveRootOf :: "string \<Rightarrow> string" where
  "naiveRootOf projectRoot = pathJoin [projectRoot, ''naiveproxy'']"

definition srcRootOf :: "string \<Rightarrow> string" where
  "srcRootOf projectRoot = pathJoin [naiveRootOf projectRoot, ''src'']"

section \<open>Resolving the selector: \<^verbatim>\<open>parseTargets\<close>\<close>

text \<open>
  \<^verbatim>\<open>fatal\<close> prints a message and ends the process with \<^verbatim>\<open>os.Exit(1)\<close>: the caller
  never sees a value. Each call of \<^verbatim>\<open>fatal\<close> is a constructor here, with the
  arguments of its format string (the text of a system error, printed by \<^verbatim>\<open>%v\<close>, is
  left out), and so is each error that \<^verbatim>\<open>downloadFile\<close> returns.
\<close>

datatype error =
    UnsupportedHost string string     \<comment> \<open>\<^verbatim>\<open>unsupported host platform: %s/%s\<close>\<close>
  | InvalidTargetFormat string        \<comment> \<open>\<^verbatim>\<open>invalid target format: %s (expected os/arch)\<close>\<close>
  | UnsupportedTarget string string   \<comment> \<open>\<^verbatim>\<open>unsupported target: %s/%s\<close>\<close>
  | GetClangHostFailed                \<comment> \<open>\<^verbatim>\<open>get-clang.sh (host) failed: %v\<close>\<close>
  | HostSymlinkFailed                 \<comment> \<open>\<^verbatim>\<open>failed to create host sysroot symlink: %v\<close>\<close>
  | GetClangFailed                    \<comment> \<open>\<^verbatim>\<open>get-clang.sh failed: %v\<close>\<close>
  | OpenFailed string                 \<comment> \<open>\<^verbatim>\<open>failed to open %s: %v\<close>\<close>
  | MkdirFailed string                \<comment> \<open>\<^verbatim>\<open>failed to create directory for %s: %v\<close>\<close>
  | CreateFailed string               \<comment> \<open>\<^verbatim>\<open>failed to create %s: %v\<close>\<close>
  | CopyFailed string string          \<comment> \<open>\<^verbatim>\<open>failed to copy %s to %s: %v\<close>\<close>
  | WriteFailed string                \<comment> \<open>\<^verbatim>\<open>failed to write %s: %v\<close>\<close>
  | HttpGetError                      \<comment> \<open>the error of \<^verbatim>\<open>http.Get\<close>, returned as it is\<close>
  | HttpStatus nat                    \<comment> \<open>\<^verbatim>\<open>HTTP %d\<close>\<close>
  | CreateError                       \<comment> \<open>the error of \<^verbatim>\<open>os.Create\<close>, returned as it is\<close>
  | CopyError                         \<comment> \<open>the error of \<^verbatim>\<open>io.Copy\<close>, returned as it is\<close>
  | Sha256Mismatch string string      \<comment> \<open>\<^verbatim>\<open>sha256 mismatch: expected %s, got %s\<close>\<close>

text \<open>
  The inner loop of \<^verbatim>\<open>parseTargets\<close>: the first entry of the registry, in its order,
  with the given \<^verbatim>\<open>GOOS\<close> and \<^verbatim>\<open>ARCH\<close>.
\<close>

definition lookupTarget :: "string \<Rightarrow> string \<Rightarrow> Target option" where
  "lookupTarget goos goarch =
     List.find (\<lambda>t. GOOS t = goos \<and> ARCH t = goarch) allTargets"

text \<open>
  The outer loop, over the pieces of the selector, with the slice \<^verbatim>\<open>targets\<close>
  built so far.
\<close>

fun parseParts :: "string list \<Rightarrow> Target list \<Rightarrow> error + Target list" where
  "parseParts [] targets = Inr targets"
| "parseParts (part # rest) targets =
     (let part' = TrimSpace part;
          parts = Split part' CHR ''/''
      in if length parts \<noteq> 2 then Inl (InvalidTargetFormat part')
         else
           (let goos = parts ! 0; goarch = parts ! 1
            in case lookupTarget goos goarch of
                 Some t \<Rightarrow> parseParts rest (targets @ [t])
               | None \<Rightarrow> Inl (UnsupportedTarget goos goarch)))"

text \<open>
  \<^verbatim>\<open>parseTargets\<close>, with \<^verbatim>\<open>runtime.GOOS\<close> and \<^verbatim>\<open>runtime.GOARCH\<close> of the running
  process as the first two arguments.
\<close>

definition parseTargets :: "string \<Rightarrow> string \<Rightarrow> string \<Rightarrow> error + Target list" where
  "parseTargets hostOS hostArch s =
     (if s = [] then
        (case List.find (\<lambda>t. GOOS t = hostOS \<and> ARCH t = hostArch) allTargets of
           Some t \<Rightarrow> Inr [t]
         | None \<Rightarrow> Inl (UnsupportedHost hostOS hostArch))
      else if s = ''all'' then Inr allTargets
      else parseParts (Split s CHR '','') [])"


section \<open>Synthesizing the configuration: the arguments of \<^verbatim>\<open>gn gen\<close> in \<^verbatim>\<open>buildTarget\<close>\<close>

text \<open>
  Second snapshot. The slice literal that \<^verbatim>\<open>args\<close> starts from is the baseline; the
  switch on \<^verbatim>\<open>t.OS\<close> appends to it. A Go map read at a missing key gives the empty
  string, and a switch with no matching case does nothing.
\<close>

definition baselineArgs :: "Target \<Rightarrow> string list" where
  "baselineArgs t =
    [''is_official_build=true'',
     ''is_debug=false'',
     ''is_clang=true'',
     ''fatal_linker_warnings=false'',
     ''treat_warnings_as_errors=false'',
     ''is_cronet_build=true'',
     ''use_udev=false'',
     ''use_aura=false'',
     ''use_ozone=false'',
     ''use_gio=false'',
     ''use_platform_icu_alternatives=true'',
     ''use_glib=false'',
     ''disable_file_support=true'',
     ''enable_websockets=false'',
     ''use_kerberos=false'',
     ''disable_zstd_filter=false'',
     ''enable_mdns=false'',
     ''enable_reporting=false'',
     ''include_transport_security_state_preload_list=false'',
     ''enable_device_bound_sessions=false'',
     ''enable_bracketed_proxy_uris=true'',
     ''enable_quic_proxy_support=true'',
     ''enable_disk_cache_sql_backend=false'',
     ''use_nss_certs=false'',
     ''enable_backup_ref_ptr_support=false'',
     ''enable_dangling_raw_ptr_checks=false'',
     ''exclude_unwind_tables=true'',
     ''enable_resource_allowlist_generation=false'',
     ''symbol_level=0'',
     ''enable_dsyms=false'',
     ''target_os='' @ quoted (OS t),
     ''target_cpu='' @ quoted (CPU t)]"

definition stagingArch :: "string \<Rightarrow> string" where
  "stagingArch cpu =
     (if cpu = ''x64'' then ''amd64'' else if cpu = ''arm64'' then ''arm64'' else [])"

definition stagingDir :: "string \<Rightarrow> string" where
  "stagingDir cpu = ''out/sysroot-build/bullseye/bullseye_'' @ stagingArch cpu @ ''_staging''"

definition buildTargetArgs :: "Target \<Rightarrow> string list" where
  "buildTargetArgs t =
     (let args = baselineArgs t in
      if OS t = ''mac'' then args @ [''use_sysroot=false'']
      else if OS t = ''linux'' then
        (let sysrootDir = stagingDir (CPU t);
             args = args @ [''use_sysroot=true'', ''target_sysroot='' @ quoted (''//'' @ sysrootDir)]
         in if CPU t = ''x64'' then args @ [''use_cfi_icall=false''] else args)
      else if OS t = ''win'' then args @ [''use_sysroot=false'']
      else if OS t = ''android'' then
        args @ [''use_sysroot=false'',
                ''default_min_sdk_version=24'',
                ''is_high_end_android=true'',
                ''android_ndk_major_version=28'']
      else if OS t = ''ios'' then
        args @ [''use_sysroot=false'',
                ''ios_enable_code_signing=false'',
                ''enable_ios_bitcode=false'',
                ''target_environment='' @ quoted ''device'']
      else args)"

definition outDir :: "Target \<Rightarrow> string" where
  "outDir t = ''out/cronet-'' @ OS t @ ''-'' @ CPU t"

definition gnArgs :: "Target \<Rightarrow> string" where
  "gnArgs t = Join (buildTargetArgs t) '' ''"

text \<open>
  First snapshot. Its baseline ends with the target, \<^verbatim>\<open>enable_dsyms=false\<close> is
  appended next, and the case for linux takes the path of the sysroot from
  \<^verbatim>\<open>ensureLinuxSysroot\<close>, made relative to \<^verbatim>\<open>srcRoot\<close>: that path is the argument
  \<open>relSysroot\<close> here. \<^verbatim>\<open>ensureLinuxSysroot\<close> and \<^verbatim>\<open>ensureAndroidNDK\<close> return or
  end the process; they add nothing to \<^verbatim>\<open>args\<close>.
\<close>

definition baselineArgs1 :: "Target \<Rightarrow> string list" where
  "baselineArgs1 t =
    [''is_official_build=true'',
     ''is_debug=false'',
     ''is_clang=true'',
     ''fatal_linker_warnings=false'',
     ''treat_warnings_as_errors=false'',
     ''is_cronet_build=true'',
     ''use_udev=false'',
     ''use_aura=false'',
     ''use_ozone=false'',
     ''use_gio=false'',
     ''use_platform_icu_alternatives=true'',
     ''use_glib=false'',
     ''disable_file_support=true'',
     ''enable_websockets=false'',
     ''use_kerberos=false'',
     ''disable_zstd_filter=false'',
     ''enable_mdns=false'',
     ''enable_reporting=false'',
     ''include_transport_security_state_preload_list=false'',
     ''enable_device_bound_sessions=false'',
     ''enable_bracketed_proxy_uris=true'',
     ''enable_quic_proxy_support=true'',
     ''enable_disk_cache_sql_backend=false'',
     ''use_nss_certs=false'',
     ''enable_backup_ref_ptr_support=false'',
     ''enable_dangling_raw_ptr_checks=false'',
     ''exclude_unwind_tables=true'',
     ''enable_resource_allowlist_generation=false'',
     ''symbol_level=0'',
     ''target_os='' @ quoted (OS t),
     ''target_cpu='' @ quoted (CPU t)]"

definition buildTargetArgs1 :: "string \<Rightarrow> Target \<Rightarrow> string list" where
  "buildTargetArgs1 relSysroot t =
     (let args = baselineArgs1 t;
          args = args @ [''enable_dsyms=false'']
      in
      if OS t = ''mac'' then args @ [''use_sysroot=false'']
      else if OS t = ''linux'' then
        (let args = args @ [''use_sysroot=true'', ''target_sysroot='' @ quoted (''//'' @ relSysroot)]
         in if CPU t = ''x64'' then args @ [''use_cfi_icall=false''] else args)
      else if OS t = ''win'' then args @ [''use_sysroot=false'']
      else if OS t = ''android'' then
        args @ [''use_sysroot=false'',
                ''default_min_sdk_version=24'',
                ''is_high_end_android=true'',
                ''android_ndk_major_version=28'']
      else if OS t = ''ios'' then
        args @ [''use_sysroot=false'',
                ''ios_enable_code_signing=false'',
                ''enable_ios_bitcode=false'',
                ''target_environment='' @ quoted ''device'']
      else args)"

section \<open>Provisioning the toolchain: \<^verbatim>\<open>runGetClang\<close>\<close>

text \<open>
  \<^verbatim>\<open>runGetClang\<close> runs a script of the checkout and asks the operating system about
  a directory, so the system is a parameter: the platform of the running process, what
  a run of \<^verbatim>\<open>get-clang.sh\<close> with a value of \<^verbatim>\<open>EXTRA_FLAGS\<close> does to the world \<open>'w\<close> and
  whether it exits with status zero, what \<^verbatim>\<open>os.Stat\<close> answers, and what
  \<^verbatim>\<open>os.Symlink\<close> does and whether it succeeds.
\<close>

datatype stat_result =
    StatOk          \<comment> \<open>\<^verbatim>\<open>err == nil\<close>\<close>
  | StatNotExist    \<comment> \<open>\<^verbatim>\<open>os.IsNotExist(err)\<close>\<close>
  | StatOtherError  \<comment> \<open>any other error\<close>

record 'w system =
  runtimeGOOS :: string
  runtimeGOARCH :: string
  getClang :: "string \<Rightarrow> 'w \<Rightarrow> bool \<times> 'w"
  osStat :: "string \<Rightarrow> 'w \<Rightarrow> stat_result"
  osSymlink :: "string \<Rightarrow> string \<Rightarrow> 'w \<Rightarrow> bool \<times> 'w"

text \<open>
  What the process does, in order: the lines it logs and the calls it makes. A line
  of \<^verbatim>\<open>log\<close> is the message after the prefix \<^verbatim>\<open>[build]\<close>.
\<close>

datatype event =
    Log string
  | RunGetClang string string   \<comment> \<open>working directory, \<^verbatim>\<open>EXTRA_FLAGS\<close>\<close>
  | Symlink string string       \<comment> \<open>\<^verbatim>\<open>os.Symlink(oldname, newname)\<close>\<close>
  | CopyTo string string        \<comment> \<open>\<^verbatim>\<open>io.Copy\<close> of a source file into a created file\<close>
  | WriteFile string            \<comment> \<open>\<^verbatim>\<open>os.WriteFile\<close> of a path\<close>

fun isLog :: "event \<Rightarrow> bool" where
  "isLog (Log m) = True"
| "isLog e = False"

definition calls :: "event list \<Rightarrow> event list" where
  "calls tr = filter (\<lambda>e. \<not> isLog e) tr"

definition getExtraFlags :: "Target \<Rightarrow> string" where
  "getExtraFlags t =
     Join [''target_os='' @ quoted (OS t), ''target_cpu='' @ quoted (CPU t)] '' ''"

definition hostToCPU :: "string \<Rightarrow> string" where
  "hostToCPU goarch =
     (if goarch = ''amd64'' then ''x64''
      else if goarch = ''arm64'' then ''arm64''
      else if goarch = ''386'' then ''x86''
      else if goarch = ''arm'' then ''arm''
      else goarch)"

text \<open>The body of the \<^verbatim>\<open>if\<close> of \<^verbatim>\<open>runGetClang\<close>: the host's sysroot and its link.\<close>

definition hostSysrootStep ::
  "'w system \<Rightarrow> string \<Rightarrow> string \<Rightarrow> 'w \<times> event list \<Rightarrow> error + 'w \<times> event list" where
  "hostSysrootStep sys srcRoot hostCPU st =
     (let (w, tr) = st;
          hostFlags = ''target_os='' @ quoted ''linux'' @ '' target_cpu='' @ quoted hostCPU;
          tr = tr @ [Log (''Running get-clang.sh for host sysroot with EXTRA_FLAGS='' @ hostFlags)];
          tr = tr @ [RunGetClang srcRoot hostFlags];
          (ok, w) = getClang sys hostFlags w
      in if \<not> ok then Inl GetClangHostFailed
         else
           (let hostSysrootSrc =
                  pathJoin [srcRoot, ''out/sysroot-build/bullseye/bullseye_amd64_staging''];
                hostSysrootDst =
                  pathJoin [srcRoot, ''build/linux/debian_bullseye_amd64-sysroot'']
            in if osStat sys hostSysrootDst w = StatNotExist then
                 (let tr = tr @ [Log (''Creating symlink for host sysroot: '' @ hostSysrootDst
                                        @ '' -> '' @ hostSysrootSrc)];
                      tr = tr @ [Symlink hostSysrootSrc hostSysrootDst];
                      (ok, w) = osSymlink sys hostSysrootSrc hostSysrootDst w
                  in if \<not> ok then Inl HostSymlinkFailed else Inr (w, tr))
               else Inr (w, tr)))"

definition runGetClang ::
  "'w system \<Rightarrow> string \<Rightarrow> Target \<Rightarrow> 'w \<times> event list \<Rightarrow> error + 'w \<times> event list" where
  "runGetClang sys srcRoot t st =
     (let hostOS = runtimeGOOS sys;
          hostCPU = hostToCPU (runtimeGOARCH sys)
      in case (if hostOS = ''linux'' \<and> (OS t = ''linux'' \<or> OS t = ''android'') \<and> CPU t \<noteq> hostCPU
               then hostSysrootStep sys srcRoot hostCPU st
               else Inr st) of
           Inl e \<Rightarrow> Inl e
         | Inr (w, tr) \<Rightarrow>
             (let extraFlags = getExtraFlags t;
                  tr = tr @ [Log (''Running get-clang.sh with EXTRA_FLAGS='' @ extraFlags)];
                  tr = tr @ [RunGetClang srcRoot extraFlags];
                  (ok, w) = getClang sys extraFlags w
              in if \<not> ok then Inl GetClangFailed else Inr (w, tr)))"

section \<open>Files\<close>

text \<open>
  For \<^verbatim>\<open>downloadFile\<close> and \<^verbatim>\<open>cmdPackage\<close> the world is the regular files with their
  contents, the calls of the operating system that fail (\<open>fault\<close>), and what the
  process has done so far. Directories are not kept: a file is below a directory when
  the directory's path and a separator start its path. Where the source drops the
  error of a call (\<^verbatim>\<open>os.RemoveAll\<close>, \<^verbatim>\<open>os.Remove\<close>, \<^verbatim>\<open>os.MkdirAll\<close> in
  \<^verbatim>\<open>cmdPackage\<close>), a failing call changes nothing and the run goes on.
\<close>

datatype syscall =
    SysOpen string
  | SysStat string
  | SysMkdirAll string
  | SysCreate string
  | SysCopy string string
  | SysWriteFile string
  | SysRemove string
  | SysRemoveAll string

record world =
  files :: "string \<rightharpoonup> string"
  fault :: "syscall \<Rightarrow> bool"
  trace :: "event list"

definition logf :: "string \<Rightarrow> world \<Rightarrow> world" where
  "logf msg w = w\<lparr>trace := trace w @ [Log msg]\<rparr>"

definition below :: "string \<Rightarrow> string \<Rightarrow> bool" where
  "below dir p \<longleftrightarrow> p = dir \<or> prefix (dir @ ''/'') p"

definition osRemoveAll :: "string \<Rightarrow> world \<Rightarrow> world" where
  "osRemoveAll dir w =
     (if fault w (SysRemoveAll dir) then w
      else w\<lparr>files := (\<lambda>p. if below dir p then None else files w p)\<rparr>)"

definition osRemove :: "string \<Rightarrow> world \<Rightarrow> world" where
  "osRemove p w =
     (if fault w (SysRemove p) then w
      else w\<lparr>files := (files w)(p := None)\<rparr>)"

definition osMkdirAll :: "string \<Rightarrow> world \<Rightarrow> bool \<times> world" where
  "osMkdirAll dir w = (\<not> fault w (SysMkdirAll dir), w)"

definition osStatFile :: "string \<Rightarrow> world \<Rightarrow> stat_result" where
  "osStatFile p w =
     (if fault w (SysStat p) then StatOtherError
      else if files w p = None then StatNotExist
      else StatOk)"

text \<open>\<^verbatim>\<open>copyFile\<close>: every error ends the process.\<close>

definition copyFile :: "string \<Rightarrow> string \<Rightarrow> world \<Rightarrow> error + world" where
  "copyFile src dst w =
     (case (if fault w (SysOpen src) then None else files w src) of
        None \<Rightarrow> Inl (OpenFailed src)
      | Some content \<Rightarrow>
          (let (ok, w) = osMkdirAll (pathDir dst) w
           in if \<not> ok then Inl (MkdirFailed dst)
              else if fault w (SysCreate dst) then Inl (CreateFailed dst)
              else if fault w (SysCopy src dst) then Inl (CopyFailed src dst)
              else Inr (w\<lparr>files := (files w)(dst \<mapsto> content),
                          trace := trace w @ [CopyTo src dst]\<rparr>)))"

section \<open>The transfer with its check: \<^verbatim>\<open>downloadFile\<close> (first snapshot)\<close>

text \<open>
  What \<^verbatim>\<open>http.Get\<close> gives for a URL is a parameter: no response, or a status and a
  body. The body delivers the bytes \<open>Body\<close>; with \<open>BodyError\<close> the copy ends in an
  error after them. \<^verbatim>\<open>io.MultiWriter\<close> gives the same bytes to the file and to the
  hash. The digest function (\<^verbatim>\<open>sha256\<close>, then \<^verbatim>\<open>hex.EncodeToString\<close>) is a parameter
  too. \<^verbatim>\<open>downloadFile\<close> returns its error, \<open>None\<close> for \<^verbatim>\<open>nil\<close>.
\<close>

record response =
  StatusCode :: nat
  Body :: string
  BodyError :: bool

definition downloadFile ::
  "(string \<Rightarrow> string) \<Rightarrow> (string \<Rightarrow> response option) \<Rightarrow>
   string \<Rightarrow> string \<Rightarrow> string \<Rightarrow> world \<Rightarrow> error option \<times> world" where
  "downloadFile sha256hex httpGet url dest expectedSha256 w =
     (case httpGet url of
        None \<Rightarrow> (Some HttpGetError, w)
      | Some resp \<Rightarrow>
          if StatusCode resp \<noteq> 200 then (Some (HttpStatus (StatusCode resp)), w)
          else if fault w (SysCreate dest) then (Some CreateError, w)
          else
            (let w = w\<lparr>files := (files w)(dest \<mapsto> [])\<rparr>;
                 w = w\<lparr>files := (files w)(dest \<mapsto> Body resp)\<rparr>
             in if BodyError resp then (Some CopyError, w)
                else
                  (let actualSha256 = sha256hex (Body resp)
                   in if actualSha256 \<noteq> expectedSha256
                      then (Some (Sha256Mismatch expectedSha256 actualSha256), osRemove dest w)
                      else (None, w))))"

section \<open>Packaging: \<^verbatim>\<open>cmdPackage\<close> and \<^verbatim>\<open>generateCGOConfigs\<close>\<close>

definition headers :: "string \<Rightarrow> (string \<times> string) list" where
  "headers projectRoot =
     (let srcRoot = srcRootOf projectRoot in
      [(pathJoin [srcRoot, ''components/cronet/native/include/cronet_c.h''], ''cronet_c.h''),
       (pathJoin [srcRoot, ''components/cronet/native/include/cronet_export.h''], ''cronet_export.h''),
       (pathJoin [srcRoot, ''components/cronet/native/generated/cronet.idl_c.h''], ''cronet.idl_c.h''),
       (pathJoin [srcRoot, ''components/grpc_support/include/bidirectional_stream_c.h''],
        ''bidirectional_stream_c.h'')])"

fun copyHeaders :: "string \<Rightarrow> (string \<times> string) list \<Rightarrow> world \<Rightarrow> error + world" where
  "copyHeaders includeDir [] w = Inr w"
| "copyHeaders includeDir ((src, dest) # hs) w =
     (case copyFile src (pathJoin [includeDir, dest]) w of
        Inl e \<Rightarrow> Inl e
      | Inr w \<Rightarrow> copyHeaders includeDir hs w)"

definition targetDir :: "string \<Rightarrow> Target \<Rightarrow> string" where
  "targetDir projectRoot t =
     pathJoin [pathJoin [projectRoot, ''lib''], GOOS t @ ''_'' @ ARCH t]"

definition srcLib :: "string \<Rightarrow> Target \<Rightarrow> string" where
  "srcLib projectRoot t =
     pathJoin [srcRootOf projectRoot,
               ''out/cronet-'' @ OS t @ ''-'' @ CPU t @ ''/obj/components/cronet/libcronet_static.a'']"

definition dstLib :: "string \<Rightarrow> Target \<Rightarrow> string" where
  "dstLib projectRoot t = pathJoin [targetDir projectRoot t, ''libcronet.a'']"

definition warningFor :: "Target \<Rightarrow> string" where
  "warningFor t = ''Warning: library not found for '' @ GOOS t @ ''/'' @ ARCH t @ '', skipping''"

text \<open>The loop of \<^verbatim>\<open>cmdPackage\<close> over the targets.\<close>

fun copyLibraries :: "string \<Rightarrow> Target list \<Rightarrow> world \<Rightarrow> error + world" where
  "copyLibraries projectRoot [] w = Inr w"
| "copyLibraries projectRoot (t # ts) w =
     (let (_, w) = osMkdirAll (targetDir projectRoot t) w
      in if osStatFile (srcLib projectRoot t) w = StatNotExist
         then copyLibraries projectRoot ts (logf (warningFor t) w)
         else
           (case copyFile (srcLib projectRoot t) (dstLib projectRoot t) w of
              Inl e \<Rightarrow> Inl e
            | Inr w \<Rightarrow>
                copyLibraries projectRoot ts
                  (logf (''Copied library for '' @ GOOS t @ ''/'' @ ARCH t) w)))"

definition ldflags :: "Target \<Rightarrow> string list" where
  "ldflags t =
     (let flags = [''-L${SRCDIR}/lib/'' @ GOOS t @ ''_'' @ ARCH t, ''-lcronet'', ''-lc++'']
      in if GOOS t = ''linux'' then flags @ [''-ldl'', ''-lpthread'', ''-lm'', ''-lresolv'']
         else if GOOS t = ''darwin'' then
           flags @ [''-framework Security'',
                    ''-framework CoreFoundation'',
                    ''-framework SystemConfiguration'',
                    ''-framework Network'',
                    ''-framework AppKit'',
                    ''-framework CFNetwork'',
                    ''-framework UniformTypeIdentifiers'']
         else if GOOS t = ''windows'' then
           flags @ [''-lws2_32'', ''-lcrypt32'', ''-lsecur32'', ''-ladvapi32'', ''-lwinhttp'']
         else if GOOS t = ''android'' then flags @ [''-ldl'', ''-llog'', ''-landroid'']
         else if GOOS t = ''ios'' then
           flags @ [''-framework Security'',
                    ''-framework CoreFoundation'',
                    ''-framework SystemConfiguration'',
                    ''-framework Network'',
                    ''-framework UIKit'']
         else flags)"

definition cgoFilename :: "Target \<Rightarrow> string" where
  "cgoFilename t = ''cgo_'' @ GOOS t @ ''_'' @ ARCH t @ ''.go''"

definition cgoPath :: "string \<Rightarrow> Target \<Rightarrow> string" where
  "cgoPath projectRoot t = pathJoin [projectRoot, cgoFilename t]"

definition cgoContent :: "Target \<Rightarrow> string" where
  "cgoContent t =
     ''//go:build '' @ GOOS t @ '' && '' @ ARCH t @ [CHR 0x0A, CHR 0x0A]
     @ ''package cronet'' @ [CHR 0x0A, CHR 0x0A]
     @ ''// #cgo CFLAGS: -I${SRCDIR}/include'' @ [CHR 0x0A]
     @ ''// #cgo LDFLAGS: '' @ Join (ldflags t) '' '' @ [CHR 0x0A]
     @ ''import '' @ quoted ''C'' @ [CHR 0x0A]"

fun generateCGOConfigs :: "string \<Rightarrow> Target list \<Rightarrow> world \<Rightarrow> error + world" where
  "generateCGOConfigs projectRoot [] w = Inr w"
| "generateCGOConfigs projectRoot (t # ts) w =
     (let filename = cgoFilename t;
          filepath = pathJoin [projectRoot, filename]
      in if fault w (SysWriteFile filepath) then Inl (WriteFailed filename)
         else
           (let w = w\<lparr>files := (files w)(filepath \<mapsto> cgoContent t),
                      trace := trace w @ [WriteFile filepath]\<rparr>
            in generateCGOConfigs projectRoot ts (logf (''Generated '' @ filename) w)))"

definition cmdPackage :: "string \<Rightarrow> Target list \<Rightarrow> world \<Rightarrow> error + world" where
  "cmdPackage projectRoot targets w =
     (let w = logf (''Packaging libraries for '' @ itoa (length targets) @ '' target(s)'') w;
          libDir = pathJoin [projectRoot, ''lib''];
          includeDir = pathJoin [projectRoot, ''include''];
          w = osRemoveAll libDir w;
          w = osRemoveAll includeDir w;
          (_, w) = osMkdirAll includeDir w
      in case copyHeaders includeDir (headers projectRoot) w of
           Inl e \<Rightarrow> Inl e
         | Inr w \<Rightarrow>
             (case copyLibraries projectRoot targets (logf ''Copied headers to include/'' w) of
                Inl e \<Rightarrow> Inl e
              | Inr w \<Rightarrow>
                  (case generateCGOConfigs projectRoot targets w of
                     Inl e \<Rightarrow> Inl e
                   | Inr w \<Rightarrow> Inr (logf ''Package complete!'' w))))"

section \<open>Vocabulary of the statements\<close>

text \<open>The name of a target in a selector and in the log: \<^verbatim>\<open>%s/%s\<close> of its \<^verbatim>\<open>GOOS\<close> and \<^verbatim>\<open>ARCH\<close>.\<close>

definition targetName :: "Target \<Rightarrow> string" where
  "targetName t = GOOS t @ ''/'' @ ARCH t"

text \<open>
  What one round of the outer loop of \<^verbatim>\<open>parseTargets\<close> does with a piece of the
  selector: the target it appends, or the error it ends with.
\<close>

definition resolvePart :: "string \<Rightarrow> error + Target" where
  "resolvePart part =
     (case Split (TrimSpace part) CHR ''/'' of
        [goos, goarch] \<Rightarrow>
          (case lookupTarget goos goarch of
             Some t \<Rightarrow> Inr t
           | None \<Rightarrow> Inl (UnsupportedTarget goos goarch))
      | _ \<Rightarrow> Inl (InvalidTargetFormat (TrimSpace part)))"

text \<open>A piece of a selector that, trimmed, is the os/arch name of a registered target.\<close>

definition registeredPart :: "string \<Rightarrow> bool" where
  "registeredPart part \<longleftrightarrow>
     (\<exists>t \<in> set allTargets. Split (TrimSpace part) CHR ''/'' = [GOOS t, ARCH t])"

text \<open>The value of \<^verbatim>\<open>EXTRA_FLAGS\<close> that \<^verbatim>\<open>runGetClang\<close> builds for the host.\<close>

definition hostFlagsOf :: "string \<Rightarrow> string" where
  "hostFlagsOf hostCPU = ''target_os='' @ quoted ''linux'' @ '' target_cpu='' @ quoted hostCPU"

text \<open>
  A system to run \<^verbatim>\<open>runGetClang\<close> on: the world is the list of the paths that exist,
  the script succeeds and changes nothing, a link is made where nothing exists.
\<close>

definition simpleSystem :: "string \<Rightarrow> string \<Rightarrow> string list system" where
  "simpleSystem goos goarch =
     \<lparr>runtimeGOOS = goos,
      runtimeGOARCH = goarch,
      getClang = (\<lambda>flags w. (True, w)),
      osStat = (\<lambda>p w. if p \<in> set w then StatOk else StatNotExist),
      osSymlink = (\<lambda>src dst w. (dst \<notin> set w, dst # w))\<rparr>"

text \<open>A digest function to run \<^verbatim>\<open>downloadFile\<close> with: the length, in decimal.\<close>

definition toyDigest :: "string \<Rightarrow> string" where
  "toyDigest b = itoa (length b)"

text \<open>
  What the loops of \<^verbatim>\<open>cmdPackage\<close> and \<^verbatim>\<open>generateCGOConfigs\<close> do for one target, given
  the files at the start: a warning when the built library is absent, else its copy;
  and the descriptor written.
\<close>

fun isWriteFile :: "event \<Rightarrow> bool" where
  "isWriteFile (WriteFile p) = True"
| "isWriteFile e = False"

definition libraryEvents :: "string \<Rightarrow> (string \<rightharpoonup> string) \<Rightarrow> Target \<Rightarrow> event list" where
  "libraryEvents projectRoot fs t =
     (if fs (srcLib projectRoot t) = None then [Log (warningFor t)]
      else [CopyTo (srcLib projectRoot t) (dstLib projectRoot t),
            Log (''Copied library for '' @ GOOS t @ ''/'' @ ARCH t)])"

definition descriptorEvents :: "string \<Rightarrow> Target \<Rightarrow> event list" where
  "descriptorEvents projectRoot t =
     [WriteFile (cgoPath projectRoot t), Log (''Generated '' @ cgoFilename t)]"

text \<open>
  A world to run \<^verbatim>\<open>cmdPackage\<close> in: the four headers and the library built for
  linux/amd64 exist, nothing else does, and no call fails.
\<close>

definition demoWorld :: "string \<Rightarrow> world" where
  "demoWorld projectRoot =
     \<lparr>files = (\<lambda>p. if p \<in> fst ` set (headers projectRoot) then Some ''header''
                    else if p = srcLib projectRoot
                                  \<lparr>OS = ''linux'', CPU = ''x64'', GOOS = ''linux'', ARCH = ''amd64''\<rparr>
                    then Some ''archive''
                    else None),
      fault = (\<lambda>c. False),
      trace = []\<rparr>"

section \<open>The resolver\<close>

lemma length_two_iff: "length xs = 2 \<longleftrightarrow> (\<exists>a b. xs = [a, b])"
  by (cases xs; cases "tl xs"; cases "tl (tl xs)") auto

lemma parseParts_Cons:
  "parseParts (part # rest) targets =
     (case resolvePart part of
        Inl e \<Rightarrow> Inl e
      | Inr t \<Rightarrow> parseParts rest (targets @ [t]))"
proof (cases "length (Split (TrimSpace part) CHR ''/'') = 2")
  case True
  then obtain a b where "Split (TrimSpace part) CHR ''/'' = [a, b]"
    by (auto simp: length_two_iff)
  then show ?thesis
    by (simp add: resolvePart_def Let_def split: option.splits)
next
  case False
  then have "resolvePart part = Inl (InvalidTargetFormat (TrimSpace part))"
    by (auto simp: resolvePart_def length_two_iff split: list.splits)
  with False show ?thesis
    by (simp add: Let_def)
qed

lemma parseParts_first_bad:
  "i < length ps \<Longrightarrow> resolvePart (ps ! i) = Inl e \<Longrightarrow> \<forall>j<i. \<not> isl (resolvePart (ps ! j))
   \<Longrightarrow> parseParts ps acc = Inl e"
proof (induction ps arbitrary: i acc)
  case Nil
  then show ?case by simp
next
  case (Cons p ps)
  show ?case
  proof (cases i)
    case 0
    with Cons.prems show ?thesis
      by (simp add: parseParts_Cons del: parseParts.simps)
  next
    case (Suc k)
    from Cons.prems(3) Suc have "\<not> isl (resolvePart p)"
      by force
    then obtain t where t: "resolvePart p = Inr t"
      by (cases "resolvePart p") auto
    from Cons.prems Suc have "parseParts ps (acc @ [t]) = Inl e"
      by (intro Cons.IH [of k]) auto
    with t show ?thesis
      by (simp add: parseParts_Cons del: parseParts.simps)
  qed
qed

lemma Split_no_sep: "sep \<notin> set x \<Longrightarrow> Split x sep = [x]"
  by (induction x) auto

lemma Split_append_sep: "sep \<notin> set x \<Longrightarrow> Split (x @ sep # r) sep = x # Split r sep"
  by (induction x) auto

lemma Split_Join:
  "xs \<noteq> [] \<Longrightarrow> \<forall>x \<in> set xs. sep \<notin> set x \<Longrightarrow> Split (Join xs [sep]) sep = xs"
proof (induction xs "[sep]" rule: Join.induct)
  case 1
  then show ?case by simp
next
  case (2 x)
  then show ?case by (simp add: Split_no_sep)
next
  case (3 x y ys)
  then show ?case by (simp add: Split_append_sep)
qed

lemmas trim_defs = TrimSpace_def TrimLeft_def TrimRight_def stripPrefixes.simps spaceEncodings_def

lemma registered_resolve:
  "list_all (\<lambda>t. resolvePart (targetName t) = Inr t \<and> CHR '','' \<notin> set (targetName t)) allTargets"
  by code_simp

lemma registered_cases:
  "t \<in> set allTargets \<Longrightarrow> list_all P allTargets \<Longrightarrow> P t"
  by (simp add: list_all_iff)

lemma Join_hd_subset: "xs \<noteq> [] \<Longrightarrow> set (hd xs) \<subseteq> set (Join xs sep)"
  by (induction xs sep rule: Join.induct) auto

lemma slash_in_targetName: "CHR ''/'' \<in> set (targetName t)"
  by (simp add: targetName_def)

lemma parseParts_map_ok:
  "\<forall>t \<in> set ts. resolvePart (g t) = Inr t \<Longrightarrow> parseParts (map g ts) acc = Inr (acc @ ts)"
proof (induction ts arbitrary: acc)
  case Nil
  show ?case by simp
next
  case (Cons t ts)
  then show ?case
    by (simp add: parseParts_Cons del: parseParts.simps)
qed

lemma lookupTarget_Some:
  "lookupTarget goos goarch = Some t \<Longrightarrow> t \<in> set allTargets \<and> GOOS t = goos \<and> ARCH t = goarch"
  by (auto simp: lookupTarget_def find_Some_iff)

lemma lookupTarget_None:
  "lookupTarget goos goarch = None \<longleftrightarrow> \<not> (\<exists>t \<in> set allTargets. GOOS t = goos \<and> ARCH t = goarch)"
  by (auto simp: lookupTarget_def find_None_iff)

lemma registeredPart_iff: "registeredPart part \<longleftrightarrow> \<not> isl (resolvePart part)"
proof
  assume "registeredPart part"
  then obtain t where t: "t \<in> set allTargets" "Split (TrimSpace part) CHR ''/'' = [GOOS t, ARCH t]"
    by (auto simp: registeredPart_def)
  then have "lookupTarget (GOOS t) (ARCH t) \<noteq> None"
    by (auto simp: lookupTarget_None)
  with t show "\<not> isl (resolvePart part)"
    by (auto simp: resolvePart_def)
next
  assume "\<not> isl (resolvePart part)"
  then show "registeredPart part"
    by (auto simp: resolvePart_def registeredPart_def split: list.splits option.splits
        dest!: lookupTarget_Some)
qed

lemma first_bad_index:
  "i < length ps \<Longrightarrow> isl (resolvePart (ps ! i)) \<Longrightarrow>
   \<exists>j\<le>i. isl (resolvePart (ps ! j)) \<and> (\<forall>k<j. \<not> isl (resolvePart (ps ! k)))"
proof (induction i rule: less_induct)
  case (less i)
  show ?case
  proof (cases "\<forall>k<i. \<not> isl (resolvePart (ps ! k))")
    case True
    with less.prems show ?thesis by blast
  next
    case False
    then obtain k where k: "k < i" "isl (resolvePart (ps ! k))"
      by blast
    with less.prems have "\<exists>j\<le>k. isl (resolvePart (ps ! j)) \<and> (\<forall>m<j. \<not> isl (resolvePart (ps ! m)))"
      by (intro less.IH) auto
    with k show ?thesis
      by (meson le_trans less_imp_le_nat)
  qed
qed

lemma resolvePart_Inl:
  "resolvePart part = Inl e \<Longrightarrow>
     (length (Split (TrimSpace part) CHR ''/'') \<noteq> 2 \<and> e = InvalidTargetFormat (TrimSpace part)) \<or>
     (\<exists>a b. Split (TrimSpace part) CHR ''/'' = [a, b] \<and> lookupTarget a b = None \<and>
            e = UnsupportedTarget a b)"
  by (auto simp: resolvePart_def split: list.splits option.splits)

text \<open>What \<^verbatim>\<open>parseTargets\<close> returns is made of registry entries.\<close>

lemma resolvePart_Inr:
  "resolvePart part = Inr t \<Longrightarrow>
     t \<in> set allTargets \<and> Split (TrimSpace part) CHR ''/'' = [GOOS t, ARCH t]"
  by (auto simp: resolvePart_def split: list.splits option.splits dest!: lookupTarget_Some)

lemma parseParts_Inr:
  "parseParts ps acc = Inr ts \<Longrightarrow>
     \<exists>new. ts = acc @ new \<and> length new = length ps \<and>
           (\<forall>i<length ps. resolvePart (ps ! i) = Inr (new ! i))"
proof (induction ps arbitrary: acc)
  case Nil
  then show ?case by simp
next
  case (Cons p ps)
  from Cons.prems obtain t where t: "resolvePart p = Inr t"
    and rest: "parseParts ps (acc @ [t]) = Inr ts"
    by (auto simp: parseParts_Cons simp del: parseParts.simps split: sum.splits)
  from Cons.IH [OF rest] obtain new where new: "ts = (acc @ [t]) @ new" "length new = length ps"
    "\<forall>i<length ps. resolvePart (ps ! i) = Inr (new ! i)"
    by blast
  have "\<forall>i<length (p # ps). resolvePart ((p # ps) ! i) = Inr ((t # new) ! i)"
    using t new(3) by (auto simp: nth_Cons split: nat.splits)
  with new(1,2) show ?case
    by (intro exI [of _ "t # new"]) simp
qed

lemma parseTargets_registered_only:
  assumes "parseTargets hostOS hostArch s = Inr ts"
  shows "set ts \<subseteq> set allTargets"
proof (cases "s = [] \<or> s = ''all''")
  case True
  with assms show ?thesis
    by (auto simp: parseTargets_def find_Some_iff split: option.splits if_splits)
next
  case False
  with assms have "parseParts (Split s CHR '','') [] = Inr ts"
    by (simp add: parseTargets_def)
  from parseParts_Inr [OF this] have "\<forall>i<length ts. ts ! i \<in> set allTargets"
    using resolvePart_Inr by fastforce
  then show ?thesis
    by (auto simp: in_set_conv_nth)
qed

text \<open>
  A selector whose pieces are all registered, whatever white space surrounds them,
  resolves to one registry entry for each piece, in order, with the \<^verbatim>\<open>GOOS\<close> and
  \<^verbatim>\<open>ARCH\<close> that the piece names.
\<close>

lemma parseParts_registered:
  "\<forall>p \<in> set ps. registeredPart p \<Longrightarrow>
     parseParts ps acc = Inr (acc @ map (\<lambda>p. projr (resolvePart p)) ps)"
proof (induction ps arbitrary: acc)
  case Nil
  show ?case by simp
next
  case (Cons p ps)
  from Cons.prems have "\<not> isl (resolvePart p)"
    by (simp add: registeredPart_iff)
  then obtain t where t: "resolvePart p = Inr t"
    by (cases "resolvePart p") auto
  from Cons.prems have "parseParts ps (acc @ [t]) = Inr ((acc @ [t]) @ map (\<lambda>p. projr (resolvePart p)) ps)"
    by (intro Cons.IH) simp
  with t show ?case
    by (simp add: parseParts_Cons del: parseParts.simps)
qed

lemma parseTargets_registered_pieces:
  assumes "s \<noteq> []" and "s \<noteq> ''all''"
    and "\<forall>p \<in> set (Split s CHR '',''). registeredPart p"
  shows "\<exists>ts. parseTargets hostOS hostArch s = Inr ts \<and>
           length ts = length (Split s CHR '','') \<and>
           (\<forall>i<length ts. ts ! i \<in> set allTargets \<and>
              Split (TrimSpace (Split s CHR '','' ! i)) CHR ''/'' = [GOOS (ts ! i), ARCH (ts ! i)])"
proof -
  let ?ps = "Split s CHR '',''"
  from parseParts_registered [OF assms(3), of "[]"] obtain ts where
    run: "parseParts ?ps [] = Inr ts"
    by simp
  from parseParts_Inr [OF run] have len: "length ts = length ?ps"
    and each: "\<forall>i<length ?ps. resolvePart (?ps ! i) = Inr (ts ! i)"
    by auto
  from each have "\<forall>i<length ts. ts ! i \<in> set allTargets \<and>
       Split (TrimSpace (?ps ! i)) CHR ''/'' = [GOOS (ts ! i), ARCH (ts ! i)]"
    using resolvePart_Inr len by (metis (no_types, lifting))
  moreover from run assms(1,2) have "parseTargets hostOS hostArch s = Inr ts"
    by (simp add: parseTargets_def)
  ultimately show ?thesis
    using len by blast
qed

text \<open>
  C5. A selector that is a comma-separated list of the os/arch names of registered
  targets resolves to exactly those targets, in the order of the selector; a name that
  comes twice gives its target twice.
\<close>

theorem parseTargets_registered_list:
  assumes "ts \<noteq> []" and "set ts \<subseteq> set allTargets"
  shows "parseTargets hostOS hostArch (Join (map (\<lambda>t. GOOS t @ ''/'' @ ARCH t) ts) '','') = Inr ts"
proof -
  let ?names = "map targetName ts"
  let ?s = "Join ?names '',''"
  have names: "map (\<lambda>t. GOOS t @ ''/'' @ ARCH t) ts = ?names"
    by (simp add: targetName_def)
  have reg: "resolvePart (targetName t) = Inr t \<and> CHR '','' \<notin> set (targetName t)"
    if "t \<in> set ts" for t
    using that assms(2) registered_cases [OF _ registered_resolve, of t] by auto
  have "CHR ''/'' \<in> set (hd ?names)"
    using assms(1) by (cases ts) (simp_all add: slash_in_targetName)
  moreover have "set (hd ?names) \<subseteq> set ?s"
    using assms(1) by (intro Join_hd_subset) simp
  ultimately have slash: "CHR ''/'' \<in> set ?s"
    by blast
  then have "?s \<noteq> []" and "?s \<noteq> ''all''"
    by auto
  moreover have "Split ?s CHR '','' = ?names"
    using assms(1) reg by (intro Split_Join) auto
  moreover have "parseParts ?names [] = Inr ([] @ ts)"
    using reg by (intro parseParts_map_ok) simp
  ultimately show ?thesis
    unfolding names parseTargets_def by simp
qed

theorem parseTargets_registered_list_witness:
  "parseTargets ''linux'' ''amd64'' ''linux/amd64,darwin/arm64,linux/amd64'' =
     Inr [\<lparr>OS = ''linux'', CPU = ''x64'', GOOS = ''linux'', ARCH = ''amd64''\<rparr>,
          \<lparr>OS = ''mac'', CPU = ''arm64'', GOOS = ''darwin'', ARCH = ''arm64''\<rparr>,
          \<lparr>OS = ''linux'', CPU = ''x64'', GOOS = ''linux'', ARCH = ''amd64''\<rparr>]"
  using parseTargets_registered_list [of
     "[\<lparr>OS = ''linux'', CPU = ''x64'', GOOS = ''linux'', ARCH = ''amd64''\<rparr>,
       \<lparr>OS = ''mac'', CPU = ''arm64'', GOOS = ''darwin'', ARCH = ''arm64''\<rparr>,
       \<lparr>OS = ''linux'', CPU = ''x64'', GOOS = ''linux'', ARCH = ''amd64''\<rparr>]" "''linux''" "''amd64''"]
  by (simp add: allTargets_def)

text \<open>
  C6 (amended). A selector with a piece that has the os/arch form and is not registered
  never resolves to a list of targets, wherever that piece stands. The error is the one
  of the first piece that is malformed or unregistered; so it names the given piece
  whenever every piece before it is registered.
\<close>

theorem parseTargets_unregistered:
  assumes i: "i < length (Split s CHR '','')"
    and parts: "Split (TrimSpace (Split s CHR '','' ! i)) CHR ''/'' = [goos, goarch]"
    and unreg: "lookupTarget goos goarch = None"
  shows "(\<exists>e. parseTargets hostOS hostArch s = Inl e) \<and>
         (\<exists>j\<le>i. (\<forall>k<j. registeredPart (Split s CHR '','' ! k)) \<and>
            (let part = TrimSpace (Split s CHR '','' ! j) in
               (length (Split part CHR ''/'') \<noteq> 2 \<and>
                parseTargets hostOS hostArch s = Inl (InvalidTargetFormat part)) \<or>
               (\<exists>a b. Split part CHR ''/'' = [a, b] \<and> lookupTarget a b = None \<and>
                  parseTargets hostOS hostArch s = Inl (UnsupportedTarget a b)))) \<and>
         ((\<forall>k<i. registeredPart (Split s CHR '','' ! k)) \<longrightarrow>
            parseTargets hostOS hostArch s = Inl (UnsupportedTarget goos goarch))"
proof -
  let ?ps = "Split s CHR '',''"
  have bad: "resolvePart (?ps ! i) = Inl (UnsupportedTarget goos goarch)"
    using parts unreg by (simp add: resolvePart_def)
  have e1: "Split (TrimSpace (Split [] CHR '','' ! 0)) CHR ''/'' = [[]]"
    by (simp add: trim_defs)
  have e2: "Split (TrimSpace (Split ''all'' CHR '','' ! 0)) CHR ''/'' = [''all'']"
    by (simp add: trim_defs)
  have "s \<noteq> []"
  proof
    assume "s = []"
    with i have "i = 0" by simp
    with parts \<open>s = []\<close> e1 show False by simp
  qed
  moreover have "s \<noteq> ''all''"
  proof
    assume "s = ''all''"
    with i have "i = 0" by simp
    with parts \<open>s = ''all''\<close> e2 show False by simp
  qed
  ultimately have s: "s \<noteq> []" "s \<noteq> ''all''"
    by blast+
  then have pT: "parseTargets hostOS hostArch s = parseParts ?ps []"
    by (simp add: parseTargets_def)
  from bad have "isl (resolvePart (?ps ! i))"
    by simp
  from first_bad_index [OF i this] obtain j where j: "j \<le> i" "isl (resolvePart (?ps ! j))"
    "\<forall>k<j. \<not> isl (resolvePart (?ps ! k))"
    by blast
  from j(2) obtain e where e: "resolvePart (?ps ! j) = Inl e"
    by (cases "resolvePart (?ps ! j)") auto
  from j(1) i have "j < length ?ps"
    by simp
  from parseParts_first_bad [OF this e j(3)] have res: "parseTargets hostOS hostArch s = Inl e"
    by (simp add: pT)
  have first: "\<exists>j\<le>i. (\<forall>k<j. registeredPart (?ps ! k)) \<and>
            (let part = TrimSpace (?ps ! j) in
               (length (Split part CHR ''/'') \<noteq> 2 \<and>
                parseTargets hostOS hostArch s = Inl (InvalidTargetFormat part)) \<or>
               (\<exists>a b. Split part CHR ''/'' = [a, b] \<and> lookupTarget a b = None \<and>
                  parseTargets hostOS hostArch s = Inl (UnsupportedTarget a b)))"
    using j(1) j(3) resolvePart_Inl [OF e] res
    unfolding Let_def registeredPart_iff by blast
  have named: "parseTargets hostOS hostArch s = Inl (UnsupportedTarget goos goarch)"
    if "\<forall>k<i. registeredPart (?ps ! k)"
  proof -
    from that have "\<forall>k<i. \<not> isl (resolvePart (?ps ! k))"
      by (simp add: registeredPart_iff)
    from parseParts_first_bad [OF i bad this] show ?thesis
      by (simp add: pT)
  qed
  from res first named show ?thesis
    by blast
qed

theorem parseTargets_unregistered_witness:
  "parseTargets ''linux'' ''amd64'' ''linux/amd64, foo/bar,x'' = Inl (UnsupportedTarget ''foo'' ''bar'')"
proof -
  let ?s = "''linux/amd64, foo/bar,x''"
  have h1: "1 < length (Split ?s CHR '','')"
    by simp
  have h2: "Split (TrimSpace (Split ?s CHR '','' ! 1)) CHR ''/'' = [''foo'', ''bar'']"
    by (simp add: trim_defs)
  have h3: "lookupTarget ''foo'' ''bar'' = None"
    by (simp add: lookupTarget_def allTargets_def)
  have h4: "\<forall>k<1. registeredPart (Split ?s CHR '','' ! k)"
    by (simp add: registeredPart_def allTargets_def trim_defs)
  from parseTargets_unregistered [OF h1 h2 h3, of "''linux''" "''amd64''"] h4 show ?thesis
    by blast
qed

text \<open>
  C6 as stated fails: in \<^verbatim>\<open>amd64,foo/bar\<close> the piece \<^verbatim>\<open>foo/bar\<close> has the os/arch
  form and is not registered, but resolution ends at \<^verbatim>\<open>amd64\<close> and the error names
  that piece.
\<close>

theorem parseTargets_names_first_bad_piece:
  "Split (TrimSpace (Split ''amd64,foo/bar'' CHR '','' ! 1)) CHR ''/'' = [''foo'', ''bar''] \<and>
   lookupTarget ''foo'' ''bar'' = None \<and>
   parseTargets ''linux'' ''amd64'' ''amd64,foo/bar'' = Inl (InvalidTargetFormat ''amd64'') \<and>
   parseTargets ''linux'' ''amd64'' ''amd64,foo/bar'' \<noteq> Inl (UnsupportedTarget ''foo'' ''bar'')"
  by (simp add: parseTargets_def lookupTarget_def allTargets_def trim_defs)

text \<open>
  C7. The selector \<^verbatim>\<open>all\<close> resolves to the whole registry, in its order of declaration,
  which has 11 entries.
\<close>

theorem parseTargets_all:
  "parseTargets hostOS hostArch ''all'' = Inr allTargets \<and> length allTargets = 11"
  by (simp add: parseTargets_def allTargets_def)

text \<open>
  C8. The empty selector resolves to the one registry entry with the \<^verbatim>\<open>GOOS\<close> and
  \<^verbatim>\<open>GOARCH\<close> of the running process when there is such an entry, and fails with the
  error for an unsupported host when there is none.
\<close>

theorem parseTargets_empty:
  "(if \<exists>t \<in> set allTargets. GOOS t = hostOS \<and> ARCH t = hostArch
    then \<exists>t \<in> set allTargets. GOOS t = hostOS \<and> ARCH t = hostArch \<and>
           parseTargets hostOS hostArch [] = Inr [t]
    else parseTargets hostOS hostArch [] = Inl (UnsupportedHost hostOS hostArch))"
proof (cases "List.find (\<lambda>t. GOOS t = hostOS \<and> ARCH t = hostArch) allTargets")
  case None
  then have "\<not> (\<exists>t \<in> set allTargets. GOOS t = hostOS \<and> ARCH t = hostArch)"
    by (auto simp: find_None_iff)
  with None show ?thesis
    by (simp add: parseTargets_def)
next
  case (Some t)
  then have "t \<in> set allTargets \<and> GOOS t = hostOS \<and> ARCH t = hostArch"
    by (auto simp: find_Some_iff)
  with Some show ?thesis
    by (auto simp: parseTargets_def)
qed

theorem parseTargets_empty_witness:
  "parseTargets ''darwin'' ''arm64'' [] =
     Inr [\<lparr>OS = ''mac'', CPU = ''arm64'', GOOS = ''darwin'', ARCH = ''arm64''\<rparr>] \<and>
   parseTargets ''plan9'' ''amd64'' [] = Inl (UnsupportedHost ''plan9'' ''amd64'')"
  using parseTargets_empty [of "''darwin''" "''arm64''"] parseTargets_empty [of "''plan9''" "''amd64''"]
  by (simp add: allTargets_def)

section \<open>The registry's keys\<close>

lemma filter_key_le_one:
  "distinct (map f xs) \<Longrightarrow> length (filter (\<lambda>x. f x = k) xs) \<le> 1"
proof (induction xs)
  case Nil
  show ?case by simp
next
  case (Cons x xs)
  show ?case
  proof (cases "f x = k")
    case True
    from Cons.prems have "f x \<notin> f ` set xs"
      by simp
    with True have "\<forall>y \<in> set xs. f y \<noteq> k"
      by (metis imageI)
    then have "filter (\<lambda>x. f x = k) xs = []"
      by (simp add: filter_empty_conv)
    with True show ?thesis by simp
  next
    case False
    with Cons show ?thesis by simp
  qed
qed

lemmas path_defs = pathJoin_def srcRootOf_def naiveRootOf_def targetDir_def srcLib_def
  dstLib_def cgoPath_def cgoFilename_def

lemma distinct_GOOS_ARCH: "distinct (map (\<lambda>t. (GOOS t, ARCH t)) allTargets)"
  by (simp add: allTargets_def)

lemma distinct_OS_CPU: "distinct (map (\<lambda>t. (OS t, CPU t)) allTargets)"
  by (simp add: allTargets_def)

lemma distinct_targetDir: "distinct (map (targetDir projectRoot) allTargets)"
  by (simp add: allTargets_def path_defs)

lemma distinct_cgoFilename: "distinct (map cgoFilename allTargets)"
  by (simp add: allTargets_def path_defs)

lemma distinct_dstLib: "distinct (map (dstLib projectRoot) allTargets)"
  by (simp add: allTargets_def path_defs)

lemma distinct_cgoPath: "distinct (map (cgoPath projectRoot) allTargets)"
  by (simp add: allTargets_def path_defs)

text \<open>
  C10. No two entries of the registry have the same \<^verbatim>\<open>GOOS\<close> and \<^verbatim>\<open>ARCH\<close> (nor the same
  \<^verbatim>\<open>OS\<close> and \<^verbatim>\<open>CPU\<close>), so at most one entry matches a token of a selector, and no two
  entries share a packaged directory or a descriptor file.
\<close>

theorem registry_keys_unique:
  "distinct (map (\<lambda>t. (GOOS t, ARCH t)) allTargets) \<and>
   distinct (map (\<lambda>t. (OS t, CPU t)) allTargets) \<and>
   length (filter (\<lambda>t. GOOS t = goos \<and> ARCH t = goarch) allTargets) \<le> 1 \<and>
   distinct (map (targetDir projectRoot) allTargets) \<and>
   distinct (map (cgoPath projectRoot) allTargets) \<and>
   distinct (map cgoFilename allTargets)"
proof -
  have "length (filter (\<lambda>t. (GOOS t, ARCH t) = (goos, goarch)) allTargets) \<le> 1"
    using distinct_GOOS_ARCH by (rule filter_key_le_one)
  then have "length (filter (\<lambda>t. GOOS t = goos \<and> ARCH t = goarch) allTargets) \<le> 1"
    by simp
  with distinct_GOOS_ARCH distinct_OS_CPU distinct_targetDir distinct_cgoPath distinct_cgoFilename
  show ?thesis by blast
qed

section \<open>The synthesized configuration\<close>

text \<open>
  C3. The configuration for a target with \<^verbatim>\<open>OS\<close> linux and \<^verbatim>\<open>CPU\<close> x64 has the directive
  \<^verbatim>\<open>use_cfi_icall=false\<close>, the one for linux and arm64 does not, in both snapshots of
  \<^verbatim>\<open>buildTarget\<close>.
\<close>

theorem cfi_icall_only_linux_x64:
  "''use_cfi_icall=false'' \<in> set (buildTargetArgs \<lparr>OS = ''linux'', CPU = ''x64'', GOOS = g, ARCH = a\<rparr>) \<and>
   ''use_cfi_icall=false'' \<notin> set (buildTargetArgs \<lparr>OS = ''linux'', CPU = ''arm64'', GOOS = g, ARCH = a\<rparr>) \<and>
   ''use_cfi_icall=false'' \<in> set (buildTargetArgs1 rel \<lparr>OS = ''linux'', CPU = ''x64'', GOOS = g, ARCH = a\<rparr>) \<and>
   ''use_cfi_icall=false'' \<notin> set (buildTargetArgs1 rel \<lparr>OS = ''linux'', CPU = ''arm64'', GOOS = g, ARCH = a\<rparr>)"
  by (simp add: buildTargetArgs_def buildTargetArgs1_def baselineArgs_def baselineArgs1_def Let_def quoted_def)

text \<open>
  C4. The configuration of every target starts with the whole baseline: the cases of
  the switch on \<^verbatim>\<open>t.OS\<close> append to it and drop nothing.
\<close>

theorem baseline_kept:
  "prefix (baselineArgs t) (buildTargetArgs t) \<and> set (baselineArgs t) \<subseteq> set (buildTargetArgs t)"
proof -
  have "prefix (baselineArgs t) (buildTargetArgs t)"
    by (simp add: buildTargetArgs_def Let_def)
  then show ?thesis
    by (auto dest: set_mono_prefix)
qed

lemma baseline1_kept:
  "prefix (baselineArgs1 t) (buildTargetArgs1 rel t)"
  by (simp add: buildTargetArgs1_def Let_def)

section \<open>\<^verbatim>\<open>runGetClang\<close>\<close>

text \<open>
  The order of the calls of a run that returns. When the host is linux, the target is
  for linux or android and its CPU is not the host's: the script for the host, then the
  link when \<^verbatim>\<open>os.Stat\<close> finds nothing at the destination, then the script for the
  target. Otherwise the script for the target only.
\<close>

lemma runGetClang_cross_order:
  assumes "runtimeGOOS sys = ''linux''"
    and "OS t = ''linux'' \<or> OS t = ''android''"
    and "CPU t \<noteq> hostToCPU (runtimeGOARCH sys)"
    and "runGetClang sys srcRoot t (w, tr) = Inr (w', tr')"
  shows "calls tr' =
           calls tr
           @ [RunGetClang srcRoot (hostFlagsOf (hostToCPU (runtimeGOARCH sys)))]
           @ (if osStat sys (pathJoin [srcRoot, ''build/linux/debian_bullseye_amd64-sysroot''])
                   (snd (getClang sys (hostFlagsOf (hostToCPU (runtimeGOARCH sys))) w)) = StatNotExist
              then [Symlink (pathJoin [srcRoot, ''out/sysroot-build/bullseye/bullseye_amd64_staging''])
                            (pathJoin [srcRoot, ''build/linux/debian_bullseye_amd64-sysroot''])]
              else [])
           @ [RunGetClang srcRoot (getExtraFlags t)]"
  using assms
  by (auto simp: runGetClang_def hostSysrootStep_def calls_def hostFlagsOf_def Let_def
      split: prod.splits if_splits sum.splits)

lemma runGetClang_native:
  assumes "\<not> (runtimeGOOS sys = ''linux'' \<and> (OS t = ''linux'' \<or> OS t = ''android'') \<and>
              CPU t \<noteq> hostToCPU (runtimeGOARCH sys))"
    and "runGetClang sys srcRoot t (w, tr) = Inr (w', tr')"
  shows "calls tr' = calls tr @ [RunGetClang srcRoot (getExtraFlags t)]"
  using assms
  by (auto simp: runGetClang_def calls_def Let_def split: prod.splits if_splits)

text \<open>
  C1. The paths of the link are constants that name amd64, whatever the CPU of the host.
  On a linux/arm64 host, for the target linux/x64 with nothing at the destination, the run
  calls the script for the host (\<^verbatim>\<open>target_cpu="arm64"\<close>), then links the conventional
  location to the amd64 staging directory, then calls the script for the target; the
  staging directory of the host's CPU, by the path that \<^verbatim>\<open>buildTarget\<close> builds for a CPU,
  is the arm64 one, and no link is made from it.
\<close>

theorem runGetClang_arm64_host_links_amd64:
  "(case runGetClang (simpleSystem ''linux'' ''arm64'') ''/w/naiveproxy/src''
           \<lparr>OS = ''linux'', CPU = ''x64'', GOOS = ''linux'', ARCH = ''amd64''\<rparr> ([], []) of
      Inl e \<Rightarrow> False
    | Inr (w, tr) \<Rightarrow>
        calls tr =
          [RunGetClang ''/w/naiveproxy/src'' (''target_os='' @ quoted ''linux'' @ '' target_cpu='' @ quoted ''arm64''),
           Symlink ''/w/naiveproxy/src/out/sysroot-build/bullseye/bullseye_amd64_staging''
                   ''/w/naiveproxy/src/build/linux/debian_bullseye_amd64-sysroot'',
           RunGetClang ''/w/naiveproxy/src'' (''target_os='' @ quoted ''linux'' @ '' target_cpu='' @ quoted ''x64'')]) \<and>
   pathJoin [''/w/naiveproxy/src'', stagingDir (hostToCPU ''arm64'')] =
     ''/w/naiveproxy/src/out/sysroot-build/bullseye/bullseye_arm64_staging''"
  by (simp add: runGetClang_def hostSysrootStep_def simpleSystem_def hostToCPU_def calls_def
      getExtraFlags_def quoted_def pathJoin_def stagingDir_def stagingArch_def Let_def)

section \<open>\<^verbatim>\<open>downloadFile\<close>\<close>

text \<open>
  C2. When the transfer completes (a response with status 200 whose body is delivered
  whole into the created file) and the system removes a file it is asked to remove: if
  the digest of the payload is the expected one, the call returns no error and the
  destination holds exactly the payload; if not, the call returns the mismatch error and
  there is no file at the destination.
\<close>

theorem downloadFile_checked:
  assumes "httpGet url = Some resp" and "StatusCode resp = 200" and "\<not> BodyError resp"
    and "\<not> fault w (SysCreate dest)" and "\<not> fault w (SysRemove dest)"
  shows "(sha256hex (Body resp) = expected \<longrightarrow>
            (\<exists>w'. downloadFile sha256hex httpGet url dest expected w = (None, w') \<and>
                  files w' dest = Some (Body resp))) \<and>
         (sha256hex (Body resp) \<noteq> expected \<longrightarrow>
            (\<exists>w'. downloadFile sha256hex httpGet url dest expected w =
                    (Some (Sha256Mismatch expected (sha256hex (Body resp))), w') \<and>
                  files w' dest = None))"
  using assms by (simp add: downloadFile_def osRemove_def Let_def)

theorem downloadFile_checked_witness:
  "(\<exists>w'. downloadFile toyDigest (\<lambda>u. Some \<lparr>StatusCode = 200, Body = ''payload'', BodyError = False\<rparr>)
            ''http://host/a'' ''/tmp/a'' ''7'' \<lparr>files = Map.empty, fault = (\<lambda>c. False), trace = []\<rparr> = (None, w') \<and>
         files w' ''/tmp/a'' = Some ''payload'') \<and>
   (\<exists>w'. downloadFile toyDigest (\<lambda>u. Some \<lparr>StatusCode = 200, Body = ''payload'', BodyError = False\<rparr>)
            ''http://host/a'' ''/tmp/a'' ''8'' \<lparr>files = Map.empty, fault = (\<lambda>c. False), trace = []\<rparr> =
              (Some (Sha256Mismatch ''8'' ''7''), w') \<and>
         files w' ''/tmp/a'' = None)"
proof -
  let ?get = "\<lambda>u::string. Some \<lparr>StatusCode = 200, Body = ''payload'', BodyError = False\<rparr>"
  let ?w = "\<lparr>files = Map.empty, fault = (\<lambda>c. False), trace = []\<rparr>"
  have d: "toyDigest ''payload'' = ''7''"
    by (simp add: toyDigest_def itoa.simps digit_def)
  have g: "?get ''http://host/a'' = Some \<lparr>StatusCode = 200, Body = ''payload'', BodyError = False\<rparr>"
    by simp
  have ok: "StatusCode \<lparr>StatusCode = 200, Body = ''payload'', BodyError = False\<rparr> = 200"
    "\<not> BodyError \<lparr>StatusCode = 200, Body = ''payload'', BodyError = False\<rparr>"
    "\<not> fault ?w (SysCreate ''/tmp/a'')" "\<not> fault ?w (SysRemove ''/tmp/a'')"
    by simp_all
  from downloadFile_checked [where httpGet = ?get and url = "''http://host/a''" and w = ?w
         and dest = "''/tmp/a''" and sha256hex = toyDigest and expected = "''7''", OF g ok]
       downloadFile_checked [where httpGet = ?get and url = "''http://host/a''" and w = ?w
         and dest = "''/tmp/a''" and sha256hex = toyDigest and expected = "''8''", OF g ok] d
  show ?thesis by simp
qed

text \<open>A copy that ends in an error is returned as it is; what was written stays.\<close>

lemma downloadFile_copy_error:
  assumes "httpGet url = Some resp" and "StatusCode resp = 200" and "BodyError resp"
    and "\<not> fault w (SysCreate dest)"
  shows "\<exists>w'. downloadFile sha256hex httpGet url dest expected w = (Some CopyError, w') \<and>
               files w' dest = Some (Body resp)"
  using assms by (simp add: downloadFile_def Let_def)

section \<open>\<^verbatim>\<open>cmdPackage\<close>\<close>

lemma dstLib_inj:
  "t \<in> set allTargets \<Longrightarrow> u \<in> set allTargets \<Longrightarrow> dstLib root t = dstLib root u \<Longrightarrow> t = u"
  using distinct_dstLib [of root] by (auto simp: distinct_map inj_on_def)

lemma cgoPath_inj:
  "t \<in> set allTargets \<Longrightarrow> u \<in> set allTargets \<Longrightarrow> cgoPath root t = cgoPath root u \<Longrightarrow> t = u"
  using distinct_cgoPath [of root] by (auto simp: distinct_map inj_on_def)

lemma srcLib_not_dstLib: "srcLib root u \<noteq> dstLib root t"
  by (simp add: path_defs)

lemma cgoPath_not_lib: "cgoPath root u \<noteq> dstLib root t" "cgoPath root u \<noteq> srcLib root t"
  by (simp_all add: path_defs)

lemma lib_paths_kept:
  "\<not> below (pathJoin [root, ''lib'']) (srcLib root t)"
  "\<not> below (pathJoin [root, ''include'']) (srcLib root t)"
  "\<not> below (pathJoin [root, ''include'']) (dstLib root t)"
  "\<not> below (pathJoin [root, ''include'']) (cgoPath root t)"
  "below (pathJoin [root, ''lib'']) (dstLib root t)"
  by (simp_all add: path_defs below_def)

lemma header_sources_kept:
  "(src, dest) \<in> set (headers root) \<Longrightarrow>
     \<not> below (pathJoin [root, ''lib'']) src \<and> \<not> below (pathJoin [root, ''include'']) src"
  by (auto simp: headers_def path_defs below_def Let_def)

lemma below_include: "below includeDir (pathJoin [includeDir, dest])"
  by (simp add: below_def pathJoin_def)

lemma copyFile_ok:
  assumes "\<forall>c. \<not> fault w c" and "files w src = Some content"
  shows "copyFile src dst w =
           Inr (w\<lparr>files := (files w)(dst \<mapsto> content), trace := trace w @ [CopyTo src dst]\<rparr>)"
  using assms by (simp add: copyFile_def osMkdirAll_def)

lemma copyHeaders_ok:
  assumes "\<forall>c. \<not> fault w c"
    and "\<forall>(src, dest) \<in> set hs. files w src \<noteq> None \<and> \<not> below includeDir src"
  shows "\<exists>w'. copyHeaders includeDir hs w = Inr w' \<and> fault w' = fault w \<and>
           (\<forall>p. \<not> below includeDir p \<longrightarrow> files w' p = files w p) \<and>
           (\<exists>evs. trace w' = trace w @ evs \<and> (\<forall>e \<in> set evs. \<exists>a b. e = CopyTo a b \<and> below includeDir b))"
  using assms
proof (induction hs arbitrary: w)
  case Nil
  show ?case by simp
next
  case (Cons h hs)
  obtain src dest where h: "h = (src, dest)"
    by (cases h)
  from Cons.prems h obtain content where c: "files w src = Some content"
    by auto
  let ?dst = "pathJoin [includeDir, dest]"
  let ?w1 = "w\<lparr>files := (files w)(?dst \<mapsto> content), trace := trace w @ [CopyTo src ?dst]\<rparr>"
  have step: "copyFile src ?dst w = Inr ?w1"
    using Cons.prems(1) c by (rule copyFile_ok)
  have b: "below includeDir ?dst"
    by (rule below_include)
  have "\<forall>c. \<not> fault ?w1 c"
    using Cons.prems(1) by auto
  moreover have "\<forall>(src, dest) \<in> set hs. files ?w1 src \<noteq> None \<and> \<not> below includeDir src"
    using Cons.prems(2) b by auto
  ultimately obtain w' evs where w': "copyHeaders includeDir hs ?w1 = Inr w'" "fault w' = fault ?w1"
    "\<forall>p. \<not> below includeDir p \<longrightarrow> files w' p = files ?w1 p"
    "trace w' = trace ?w1 @ evs" "\<forall>e \<in> set evs. \<exists>a b. e = CopyTo a b \<and> below includeDir b"
    using Cons.IH [of ?w1] by blast
  have "copyHeaders includeDir (h # hs) w = Inr w'"
    using h step w'(1) by simp
  moreover have "fault w' = fault w"
    using w'(2) by simp
  moreover have "\<forall>p. \<not> below includeDir p \<longrightarrow> files w' p = files w p"
    using w'(3) b by auto
  moreover have "trace w' = trace w @ (CopyTo src ?dst # evs)"
    using w'(4) by simp
  moreover have "\<forall>e \<in> set (CopyTo src ?dst # evs). \<exists>a b. e = CopyTo a b \<and> below includeDir b"
    using w'(5) b by auto
  ultimately show ?case
    by blast
qed

lemma libraryEvents_cong:
  "\<forall>t. fs (srcLib root t) = fs' (srcLib root t) \<Longrightarrow> libraryEvents root fs = libraryEvents root fs'"
  by (auto simp: libraryEvents_def fun_eq_iff)

lemma copyLibraries_ok:
  assumes "set ts \<subseteq> set allTargets" and "\<forall>c. \<not> fault w c"
  shows "\<exists>w'. copyLibraries root ts w = Inr w' \<and> fault w' = fault w \<and>
           trace w' = trace w @ concat (map (libraryEvents root (files w)) ts) \<and>
           (\<forall>u \<in> set allTargets. files w' (dstLib root u) =
              (if u \<in> set ts \<and> files w (srcLib root u) \<noteq> None then files w (srcLib root u)
               else files w (dstLib root u))) \<and>
           (\<forall>p. p \<notin> dstLib root ` set ts \<longrightarrow> files w' p = files w p)"
  using assms
proof (induction ts arbitrary: w)
  case Nil
  show ?case by simp
next
  case (Cons t ts)
  from Cons.prems have t: "t \<in> set allTargets" and ts: "set ts \<subseteq> set allTargets"
    by auto
  have stat: "osStatFile (srcLib root t) w = (if files w (srcLib root t) = None then StatNotExist else StatOk)"
    using Cons.prems(2) by (simp add: osStatFile_def)
  show ?case
  proof (cases "files w (srcLib root t)")
    case None
    define w1 where "w1 = logf (warningFor t) w"
    have f1: "files w1 = files w" "fault w1 = fault w" "trace w1 = trace w @ [Log (warningFor t)]"
      by (simp_all add: w1_def logf_def)
    from Cons.prems(2) f1 have "\<forall>c. \<not> fault w1 c"
      by auto
    from Cons.IH [OF ts this] obtain w' where w': "copyLibraries root ts w1 = Inr w'"
      "fault w' = fault w1"
      "trace w' = trace w1 @ concat (map (libraryEvents root (files w1)) ts)"
      "\<forall>u \<in> set allTargets. files w' (dstLib root u) =
              (if u \<in> set ts \<and> files w1 (srcLib root u) \<noteq> None then files w1 (srcLib root u)
               else files w1 (dstLib root u))"
      "\<forall>p. p \<notin> dstLib root ` set ts \<longrightarrow> files w' p = files w1 p"
      by blast
    have "copyLibraries root (t # ts) w = Inr w'"
      using None stat w'(1) by (simp add: osMkdirAll_def w1_def)
    moreover have "fault w' = fault w"
      using w'(2) f1 by simp
    moreover have "trace w' = trace w @ concat (map (libraryEvents root (files w)) (t # ts))"
      using w'(3) f1 None by (simp add: libraryEvents_def)
    moreover have "\<forall>u \<in> set allTargets. files w' (dstLib root u) =
              (if u \<in> set (t # ts) \<and> files w (srcLib root u) \<noteq> None then files w (srcLib root u)
               else files w (dstLib root u))"
      using w'(4) f1 None by auto
    moreover have "\<forall>p. p \<notin> dstLib root ` set (t # ts) \<longrightarrow> files w' p = files w p"
      using w'(5) f1 by auto
    ultimately show ?thesis
      by blast
  next
    case (Some content)
    let ?w1 = "w\<lparr>files := (files w)(dstLib root t \<mapsto> content),
                  trace := trace w @ [CopyTo (srcLib root t) (dstLib root t)]\<rparr>"
    define w2 where "w2 = logf (''Copied library for '' @ GOOS t @ ''/'' @ ARCH t) ?w1"
    have copy: "copyFile (srcLib root t) (dstLib root t) w = Inr ?w1"
      using Cons.prems(2) Some by (rule copyFile_ok)
    have f2: "files w2 = (files w)(dstLib root t \<mapsto> content)" "fault w2 = fault w"
      "trace w2 = trace w @ libraryEvents root (files w) t"
      using Some by (simp_all add: w2_def logf_def libraryEvents_def)
    have src: "files w2 (srcLib root u) = files w (srcLib root u)" for u
      using f2(1) srcLib_not_dstLib [of root u t] by simp
    then have ev: "libraryEvents root (files w2) = libraryEvents root (files w)"
      by (intro libraryEvents_cong) simp
    from Cons.prems(2) f2 have "\<forall>c. \<not> fault w2 c"
      by auto
    from Cons.IH [OF ts this] obtain w' where w': "copyLibraries root ts w2 = Inr w'"
      "fault w' = fault w2"
      "trace w' = trace w2 @ concat (map (libraryEvents root (files w2)) ts)"
      "\<forall>u \<in> set allTargets. files w' (dstLib root u) =
              (if u \<in> set ts \<and> files w2 (srcLib root u) \<noteq> None then files w2 (srcLib root u)
               else files w2 (dstLib root u))"
      "\<forall>p. p \<notin> dstLib root ` set ts \<longrightarrow> files w' p = files w2 p"
      by blast
    have "copyLibraries root (t # ts) w = Inr w'"
      using Some stat copy w'(1) by (simp add: osMkdirAll_def w2_def)
    moreover have "fault w' = fault w"
      using w'(2) f2 by simp
    moreover have "trace w' = trace w @ concat (map (libraryEvents root (files w)) (t # ts))"
      using w'(3) f2(3) ev by simp
    moreover have "files w' (dstLib root u) =
              (if u \<in> set (t # ts) \<and> files w (srcLib root u) \<noteq> None then files w (srcLib root u)
               else files w (dstLib root u))" if u: "u \<in> set allTargets" for u
    proof (cases "u = t")
      case True
      from w'(4) u have "files w' (dstLib root u) =
              (if u \<in> set ts \<and> files w2 (srcLib root u) \<noteq> None then files w2 (srcLib root u)
               else files w2 (dstLib root u))"
        by blast
      moreover have "files w2 (dstLib root t) = Some content"
        using f2(1) by simp
      ultimately show ?thesis
        using True Some src [of t] by auto
    next
      case False
      with t u have ne: "dstLib root u \<noteq> dstLib root t"
        using dstLib_inj by blast
      from w'(4) u have "files w' (dstLib root u) =
              (if u \<in> set ts \<and> files w2 (srcLib root u) \<noteq> None then files w2 (srcLib root u)
               else files w2 (dstLib root u))"
        by blast
      moreover have "files w2 (dstLib root u) = files w (dstLib root u)"
        using f2(1) ne by simp
      ultimately show ?thesis
        using False src [of u] by auto
    qed
    moreover have "\<forall>p. p \<notin> dstLib root ` set (t # ts) \<longrightarrow> files w' p = files w p"
      using w'(5) f2(1) by auto
    ultimately show ?thesis
      by blast
  qed
qed

lemma generateCGOConfigs_ok:
  assumes "set ts \<subseteq> set allTargets" and "\<forall>c. \<not> fault w c"
  shows "\<exists>w'. generateCGOConfigs root ts w = Inr w' \<and> fault w' = fault w \<and>
           trace w' = trace w @ concat (map (descriptorEvents root) ts) \<and>
           (\<forall>u \<in> set allTargets. files w' (cgoPath root u) =
              (if u \<in> set ts then Some (cgoContent u) else files w (cgoPath root u))) \<and>
           (\<forall>p. p \<notin> cgoPath root ` set ts \<longrightarrow> files w' p = files w p)"
  using assms
proof (induction ts arbitrary: w)
  case Nil
  show ?case by simp
next
  case (Cons t ts)
  from Cons.prems have t: "t \<in> set allTargets" and ts: "set ts \<subseteq> set allTargets"
    by auto
  let ?w1 = "w\<lparr>files := (files w)(cgoPath root t \<mapsto> cgoContent t),
                trace := trace w @ [WriteFile (cgoPath root t)]\<rparr>"
  define w2 where "w2 = logf (''Generated '' @ cgoFilename t) ?w1"
  have f2: "files w2 = (files w)(cgoPath root t \<mapsto> cgoContent t)" "fault w2 = fault w"
    "trace w2 = trace w @ descriptorEvents root t"
    by (simp_all add: w2_def logf_def descriptorEvents_def)
  from Cons.prems(2) f2 have "\<forall>c. \<not> fault w2 c"
    by auto
  from Cons.IH [OF ts this] obtain w' where w': "generateCGOConfigs root ts w2 = Inr w'"
    "fault w' = fault w2"
    "trace w' = trace w2 @ concat (map (descriptorEvents root) ts)"
    "\<forall>u \<in> set allTargets. files w' (cgoPath root u) =
              (if u \<in> set ts then Some (cgoContent u) else files w2 (cgoPath root u))"
    "\<forall>p. p \<notin> cgoPath root ` set ts \<longrightarrow> files w' p = files w2 p"
    by blast
  have "generateCGOConfigs root (t # ts) w = Inr w'"
    using Cons.prems(2) w'(1) by (simp add: Let_def cgoPath_def w2_def)
  moreover have "fault w' = fault w"
    using w'(2) f2 by simp
  moreover have "trace w' = trace w @ concat (map (descriptorEvents root) (t # ts))"
    using w'(3) f2(3) by simp
  moreover have "files w' (cgoPath root u) =
              (if u \<in> set (t # ts) then Some (cgoContent u) else files w (cgoPath root u))"
    if u: "u \<in> set allTargets" for u
  proof -
    from w'(4) u have *: "files w' (cgoPath root u) =
              (if u \<in> set ts then Some (cgoContent u) else files w2 (cgoPath root u))"
      by blast
    show ?thesis
    proof (cases "u = t")
      case True
      with * f2(1) show ?thesis by simp
    next
      case False
      with t u have "cgoPath root u \<noteq> cgoPath root t"
        using cgoPath_inj by blast
      with * False f2(1) show ?thesis by simp
    qed
  qed
  moreover have "\<forall>p. p \<notin> cgoPath root ` set (t # ts) \<longrightarrow> files w' p = files w p"
    using w'(5) f2(1) by auto
  ultimately show ?case
    by blast
qed

lemma writes_of_libraryEvents:
  "filter isWriteFile (concat (map (libraryEvents root fs) ts)) = []"
  by (induction ts) (simp_all add: libraryEvents_def)

lemma writes_of_descriptorEvents:
  "filter isWriteFile (concat (map (descriptorEvents root) ts)) =
     map (\<lambda>t. WriteFile (cgoPath root t)) ts"
  by (induction ts) (simp_all add: descriptorEvents_def)

lemma writes_of_copies:
  "\<forall>e \<in> set evs. \<exists>a b. e = CopyTo a b \<and> P b \<Longrightarrow> filter isWriteFile evs = []"
  by (induction evs) auto

lemma copy_in_libraryEvents:
  "CopyTo a b \<in> set (concat (map (libraryEvents root fs) ts)) \<Longrightarrow>
     \<exists>u \<in> set ts. fs (srcLib root u) \<noteq> None \<and> b = dstLib root u"
  by (auto simp: libraryEvents_def split: if_splits)

lemma copy_not_in_descriptorEvents:
  "CopyTo a b \<notin> set (concat (map (descriptorEvents root) ts))"
  by (auto simp: descriptorEvents_def)

lemma warning_in_libraryEvents:
  "t \<in> set ts \<Longrightarrow> fs (srcLib root t) = None \<Longrightarrow>
     Log (warningFor t) \<in> set (concat (map (libraryEvents root fs) ts))"
  by (auto simp: libraryEvents_def)

text \<open>
  C9. For every list of registered targets, when the shared headers exist and no call of
  the system fails, \<^verbatim>\<open>cmdPackage\<close> runs to its end. A target whose built library is
  absent gets its warning, no copy, and no library file in the output; a target whose
  library is present gets it copied, whatever happened to the others. The descriptors
  written are exactly one for each target of the list, in its order, the skipped ones
  included, and each is on disk at the end.
\<close>

theorem cmdPackage_best_effort:
  assumes reg: "set ts \<subseteq> set allTargets"
    and nofault: "\<forall>c. \<not> fault w c"
    and hdrs: "\<forall>(src, dest) \<in> set (headers root). files w src \<noteq> None"
  shows "\<exists>w' evs. cmdPackage root ts w = Inr w' \<and> trace w' = trace w @ evs \<and>
           (\<forall>t \<in> set ts. files w (srcLib root t) = None \<longrightarrow>
              Log (warningFor t) \<in> set evs \<and>
              CopyTo (srcLib root t) (dstLib root t) \<notin> set evs \<and>
              files w' (dstLib root t) = None) \<and>
           (\<forall>t \<in> set ts. \<forall>content. files w (srcLib root t) = Some content \<longrightarrow>
              files w' (dstLib root t) = Some content) \<and>
           filter isWriteFile evs = map (\<lambda>t. WriteFile (cgoPath root t)) ts \<and>
           (\<forall>t \<in> set ts. files w' (cgoPath root t) = Some (cgoContent t))"
proof -
  let ?lib = "pathJoin [root, ''lib'']"
  let ?inc = "pathJoin [root, ''include'']"
  let ?start = "Log (''Packaging libraries for '' @ itoa (length ts) @ '' target(s)'')"
  define w3 where
    "w3 = osRemoveAll ?inc (osRemoveAll ?lib
            (logf (''Packaging libraries for '' @ itoa (length ts) @ '' target(s)'') w))"
  have w3: "fault w3 = fault w" "trace w3 = trace w @ [?start]"
    "\<And>p. files w3 p = (if below ?lib p \<or> below ?inc p then None else files w p)"
    using nofault by (auto simp: w3_def osRemoveAll_def logf_def)
  have nf3: "\<forall>c. \<not> fault w3 c"
    using nofault w3(1) by simp
  have "\<forall>(src, dest) \<in> set (headers root). files w3 src \<noteq> None \<and> \<not> below ?inc src"
    using hdrs header_sources_kept [of _ _ root] w3(3) by fastforce
  from copyHeaders_ok [OF nf3 this] obtain w4 hevs where w4:
    "copyHeaders ?inc (headers root) w3 = Inr w4" "fault w4 = fault w3"
    "\<forall>p. \<not> below ?inc p \<longrightarrow> files w4 p = files w3 p"
    "trace w4 = trace w3 @ hevs" "\<forall>e \<in> set hevs. \<exists>a b. e = CopyTo a b \<and> below ?inc b"
    by blast
  define w5 where "w5 = logf ''Copied headers to include/'' w4"
  have w5: "fault w5 = fault w" "files w5 = files w4"
    "trace w5 = trace w @ [?start] @ hevs @ [Log ''Copied headers to include/'']"
    using w4(2,4) w3(1,2) by (simp_all add: w5_def logf_def)
  have src5: "files w5 (srcLib root t) = files w (srcLib root t)" for t
    using w5(2) w4(3) w3(3) lib_paths_kept(1,2) [of root t] by simp
  have dst5: "files w5 (dstLib root t) = None" for t
    using w5(2) w4(3) w3(3) lib_paths_kept(3,5) [of root t] by simp
  have nf5: "\<forall>c. \<not> fault w5 c"
    using nofault w5(1) by simp
  from copyLibraries_ok [OF reg nf5, of root] obtain w6 where w6:
    "copyLibraries root ts w5 = Inr w6" "fault w6 = fault w5"
    "trace w6 = trace w5 @ concat (map (libraryEvents root (files w5)) ts)"
    "\<forall>u \<in> set allTargets. files w6 (dstLib root u) =
              (if u \<in> set ts \<and> files w5 (srcLib root u) \<noteq> None then files w5 (srcLib root u)
               else files w5 (dstLib root u))"
    by blast
  have ev5: "libraryEvents root (files w5) = libraryEvents root (files w)"
    using src5 by (intro libraryEvents_cong) simp
  have dst6: "files w6 (dstLib root t) = files w (srcLib root t)" if "t \<in> set ts" for t
    using that reg w6(4) src5 [of t] dst5 [of t] by (cases "files w (srcLib root t)") auto
  have nf6: "\<forall>c. \<not> fault w6 c"
    using nf5 w6(2) by simp
  from generateCGOConfigs_ok [OF reg nf6, of root] obtain w7 where w7:
    "generateCGOConfigs root ts w6 = Inr w7"
    "trace w7 = trace w6 @ concat (map (descriptorEvents root) ts)"
    "\<forall>u \<in> set allTargets. files w7 (cgoPath root u) =
              (if u \<in> set ts then Some (cgoContent u) else files w6 (cgoPath root u))"
    "\<forall>p. p \<notin> cgoPath root ` set ts \<longrightarrow> files w7 p = files w6 p"
    by blast
  define w' where "w' = logf ''Package complete!'' w7"
  define evs where "evs = [?start] @ hevs @ [Log ''Copied headers to include/'']
    @ concat (map (libraryEvents root (files w)) ts)
    @ concat (map (descriptorEvents root) ts) @ [Log ''Package complete!'']"
  have run: "cmdPackage root ts w = Inr w'"
    using w4(1) w6(1) w7(1)
    by (simp add: cmdPackage_def osMkdirAll_def Let_def w3_def w5_def w'_def)
  have tr: "trace w' = trace w @ evs"
    using w7(2) w6(3) w5(3) ev5 by (simp add: w'_def evs_def logf_def)
  have files': "files w' = files w7"
    by (simp add: w'_def logf_def)
  have dst': "files w' (dstLib root t) = files w (srcLib root t)" if "t \<in> set ts" for t
  proof -
    have "dstLib root t \<notin> cgoPath root ` set ts"
    proof
      assume "dstLib root t \<in> cgoPath root ` set ts"
      then obtain u where "cgoPath root u = dstLib root t"
        by auto
      then show False
        by (simp add: cgoPath_not_lib)
    qed
    with w7(4) have "files w7 (dstLib root t) = files w6 (dstLib root t)"
      by blast
    with dst6 [OF that] files' show ?thesis
      by simp
  qed
  have absent: "Log (warningFor t) \<in> set evs \<and>
              CopyTo (srcLib root t) (dstLib root t) \<notin> set evs \<and>
              files w' (dstLib root t) = None"
    if t: "t \<in> set ts" and none: "files w (srcLib root t) = None" for t
  proof -
    have "Log (warningFor t) \<in> set evs"
      using warning_in_libraryEvents [of t ts "files w" root] t none by (simp add: evs_def)
    moreover have "CopyTo (srcLib root t) (dstLib root t) \<notin> set hevs"
      using w4(5) lib_paths_kept(3) [of root t] by auto
    moreover have "CopyTo (srcLib root t) (dstLib root t)
                     \<notin> set (concat (map (libraryEvents root (files w)) ts))"
    proof
      assume "CopyTo (srcLib root t) (dstLib root t)
                \<in> set (concat (map (libraryEvents root (files w)) ts))"
      from copy_in_libraryEvents [OF this] obtain u where u: "u \<in> set ts"
        "files w (srcLib root u) \<noteq> None" "dstLib root t = dstLib root u"
        by blast
      with t reg have "t = u"
        using dstLib_inj [of t u root] by blast
      with u(2) none show False
        by simp
    qed
    ultimately have "Log (warningFor t) \<in> set evs \<and>
                     CopyTo (srcLib root t) (dstLib root t) \<notin> set evs"
      using copy_not_in_descriptorEvents [of "srcLib root t" "dstLib root t" root ts]
      by (simp add: evs_def)
    with dst' [OF t] none show ?thesis
      by simp
  qed
  have writes: "filter isWriteFile evs = map (\<lambda>t. WriteFile (cgoPath root t)) ts"
    using writes_of_copies [OF w4(5)]
    by (simp add: evs_def writes_of_libraryEvents writes_of_descriptorEvents)
  have desc: "files w' (cgoPath root t) = Some (cgoContent t)" if "t \<in> set ts" for t
    using that reg w7(3) files' by auto
  from run tr absent dst' writes desc show ?thesis
    by (intro exI [of _ w'] exI [of _ evs]) simp
qed

theorem cmdPackage_best_effort_witness:
  "\<exists>w' evs.
     cmdPackage ''/w''
       [\<lparr>OS = ''linux'', CPU = ''x64'', GOOS = ''linux'', ARCH = ''amd64''\<rparr>,
        \<lparr>OS = ''mac'', CPU = ''arm64'', GOOS = ''darwin'', ARCH = ''arm64''\<rparr>]
       (demoWorld ''/w'') = Inr w' \<and>
     trace w' = evs \<and>
     Log ''Warning: library not found for darwin/arm64, skipping'' \<in> set evs \<and>
     files w' ''/w/lib/darwin_arm64/libcronet.a'' = None \<and>
     files w' ''/w/lib/linux_amd64/libcronet.a'' = Some ''archive'' \<and>
     filter isWriteFile evs = [WriteFile ''/w/cgo_linux_amd64.go'', WriteFile ''/w/cgo_darwin_arm64.go'']"
proof -
  let ?a = "\<lparr>OS = ''linux'', CPU = ''x64'', GOOS = ''linux'', ARCH = ''amd64''\<rparr>"
  let ?b = "\<lparr>OS = ''mac'', CPU = ''arm64'', GOOS = ''darwin'', ARCH = ''arm64''\<rparr>"
  have h1: "set [?a, ?b] \<subseteq> set allTargets"
    by (simp add: allTargets_def)
  have h2: "\<forall>c. \<not> fault (demoWorld ''/w'') c"
    by (simp add: demoWorld_def)
  have h3: "\<forall>(src, dest) \<in> set (headers ''/w''). files (demoWorld ''/w'') src \<noteq> None"
    by (force simp: demoWorld_def)
  have a: "files (demoWorld ''/w'') (srcLib ''/w'' ?a) = Some ''archive''"
    by (simp add: demoWorld_def headers_def path_defs)
  have b: "files (demoWorld ''/w'') (srcLib ''/w'' ?b) = None"
    by (simp add: demoWorld_def headers_def path_defs)
  have p: "dstLib ''/w'' ?a = ''/w/lib/linux_amd64/libcronet.a''"
    "dstLib ''/w'' ?b = ''/w/lib/darwin_arm64/libcronet.a''"
    "cgoPath ''/w'' ?a = ''/w/cgo_linux_amd64.go''"
    "cgoPath ''/w'' ?b = ''/w/cgo_darwin_arm64.go''"
    "warningFor ?b = ''Warning: library not found for darwin/arm64, skipping''"
    "trace (demoWorld ''/w'') = []"
    by (simp_all add: path_defs warningFor_def demoWorld_def)
  from cmdPackage_best_effort [OF h1 h2 h3] obtain w' evs where
    "cmdPackage ''/w'' [?a, ?b] (demoWorld ''/w'') = Inr w'"
    "trace w' = trace (demoWorld ''/w'') @ evs"
    "\<forall>t \<in> set [?a, ?b]. files (demoWorld ''/w'') (srcLib ''/w'' t) = None \<longrightarrow>
       Log (warningFor t) \<in> set evs \<and>
       CopyTo (srcLib ''/w'' t) (dstLib ''/w'' t) \<notin> set evs \<and>
       files w' (dstLib ''/w'' t) = None"
    "\<forall>t \<in> set [?a, ?b]. \<forall>content. files (demoWorld ''/w'') (srcLib ''/w'' t) = Some content \<longrightarrow>
       files w' (dstLib ''/w'' t) = Some content"
    "filter isWriteFile evs = map (\<lambda>t. WriteFile (cgoPath ''/w'' t)) [?a, ?b]"
    by blast
  with a b p show ?thesis
    by simp
qed

end
